theory Spec2Isabelle
  imports Complex_Main
begin

section \<open>Python numbers\<close>

text \<open>
  The tools compute with Python's unbounded integers and with floats. Integers are
  \<^typ>\<open>int\<close>. A float is either finite, one of the two infinities, or NaN; a finite
  float is given by the real number it stands for.

  Every arithmetic operation on floats returns the exact result rounded to a float.
  The rounding is the first parameter \<open>rnd\<close> of every function that computes with
  floats. The program is the instance \<open>binary64\<close>, IEEE 754 double precision with
  rounding to nearest, ties to even. The instance \<open>exact\<close>, no rounding at all, is the
  arithmetic of the real numbers. A statement for every \<open>rnd\<close> holds for both.

  The mantissa of \<open>binary64\<close> has 53 bits; its exponent is not bounded here: results
  beyond \<open>1.8e308\<close> in size, which Python turns into an infinity or an OverflowError,
  and results below \<open>2.3e-308\<close>, which lose precision, are outside of this model.
\<close>

datatype pyfloat = Fin real | PInf | NInf | NaN

definition round_half_even :: "real \<Rightarrow> int" where
  "round_half_even y =
     (let f = \<lfloor>y\<rfloor>; d = y - of_int f in
      if d < 1/2 then f else if 1/2 < d then f + 1 else if even f then f else f + 1)"

definition binary64 :: "real \<Rightarrow> real" where
  "binary64 x =
     (if x = 0 then 0
      else let e = \<lfloor>log 2 \<bar>x\<bar>\<rfloor> - 52 in
           of_int (round_half_even (x / 2 powr of_int e)) * 2 powr of_int e)"

definition exact :: "real \<Rightarrow> real" where
  "exact x = x"

text \<open>
  An integer is compared with a float at its exact value (\<open>fl\<close>). An integer that
  meets a float in an arithmetic operation is converted to a float first (\<open>to_float\<close>).
\<close>

abbreviation fl :: "int \<Rightarrow> pyfloat" where
  "fl n \<equiv> Fin (real_of_int n)"

definition to_float :: "(real \<Rightarrow> real) \<Rightarrow> int \<Rightarrow> pyfloat" where
  "to_float rnd n = Fin (rnd (real_of_int n))"

datatype error = KeyError string | ValueError | OverflowError | ZeroDivisionError | SystemExit

definition bind_err :: "error + 'a \<Rightarrow> ('a \<Rightarrow> error + 'b) \<Rightarrow> error + 'b" where
  "bind_err m f = (case m of Inl e \<Rightarrow> Inl e | Inr x \<Rightarrow> f x)"

fun fneg :: "pyfloat \<Rightarrow> pyfloat" where
  "fneg (Fin a) = Fin (- a)"
| "fneg PInf = NInf"
| "fneg NInf = PInf"
| "fneg NaN = NaN"

fun fadd :: "(real \<Rightarrow> real) \<Rightarrow> pyfloat \<Rightarrow> pyfloat \<Rightarrow> pyfloat" where
  "fadd rnd (Fin a) (Fin b) = Fin (rnd (a + b))"
| "fadd rnd NaN y = NaN"
| "fadd rnd x NaN = NaN"
| "fadd rnd PInf NInf = NaN"
| "fadd rnd NInf PInf = NaN"
| "fadd rnd PInf y = PInf"
| "fadd rnd x PInf = PInf"
| "fadd rnd NInf y = NInf"
| "fadd rnd x NInf = NInf"

definition fsub :: "(real \<Rightarrow> real) \<Rightarrow> pyfloat \<Rightarrow> pyfloat \<Rightarrow> pyfloat" where
  "fsub rnd x y = fadd rnd x (fneg y)"

text \<open>The sign of a product with an infinity; zero times infinity is NaN.\<close>

definition inf_times :: "bool \<Rightarrow> real \<Rightarrow> pyfloat" where
  "inf_times positive a =
     (if a = 0 then NaN else if (0 < a) = positive then PInf else NInf)"

fun fmul :: "(real \<Rightarrow> real) \<Rightarrow> pyfloat \<Rightarrow> pyfloat \<Rightarrow> pyfloat" where
  "fmul rnd (Fin a) (Fin b) = Fin (rnd (a * b))"
| "fmul rnd NaN y = NaN"
| "fmul rnd x NaN = NaN"
| "fmul rnd (Fin a) PInf = inf_times True a"
| "fmul rnd (Fin a) NInf = inf_times False a"
| "fmul rnd PInf (Fin b) = inf_times True b"
| "fmul rnd NInf (Fin b) = inf_times False b"
| "fmul rnd PInf PInf = PInf"
| "fmul rnd PInf NInf = NInf"
| "fmul rnd NInf PInf = NInf"
| "fmul rnd NInf NInf = PInf"

text \<open>
  Float division \<open>x / y\<close> for a divisor that is not zero. Python raises
  ZeroDivisionError on a zero divisor: \<open>py_truediv\<close> is the operator with that raise,
  \<open>fdiv\<close> is used directly only behind a test that excludes zero.
\<close>

fun fdiv :: "(real \<Rightarrow> real) \<Rightarrow> pyfloat \<Rightarrow> pyfloat \<Rightarrow> pyfloat" where
  "fdiv rnd (Fin a) (Fin b) = Fin (rnd (a / b))"
| "fdiv rnd NaN y = NaN"
| "fdiv rnd x NaN = NaN"
| "fdiv rnd (Fin a) PInf = Fin 0"
| "fdiv rnd (Fin a) NInf = Fin 0"
| "fdiv rnd PInf (Fin b) = (if 0 < b then PInf else NInf)"
| "fdiv rnd NInf (Fin b) = (if 0 < b then NInf else PInf)"
| "fdiv rnd PInf y = NaN"
| "fdiv rnd NInf y = NaN"

definition py_truediv :: "(real \<Rightarrow> real) \<Rightarrow> pyfloat \<Rightarrow> pyfloat \<Rightarrow> error + pyfloat" where
  "py_truediv rnd x y = (if y = Fin 0 then Inl ZeroDivisionError else Inr (fdiv rnd x y))"

text \<open>
  The dividend of \<open>sp / sp_per_hour\<close> is an integer at some calls and a float at
  others; the divisor is an integer at all of them. The quotient of two integers is
  the exact quotient, rounded once; a float is divided by the converted divisor.
\<close>

datatype pynum = PyInt int | PyFloat pyfloat

fun truediv :: "(real \<Rightarrow> real) \<Rightarrow> pynum \<Rightarrow> int \<Rightarrow> pyfloat" where
  "truediv rnd (PyInt a) b = Fin (rnd (real_of_int a / real_of_int b))"
| "truediv rnd (PyFloat x) b = fdiv rnd x (to_float rnd b)"

text \<open>Comparisons: every comparison with NaN is false.\<close>

fun flt :: "pyfloat \<Rightarrow> pyfloat \<Rightarrow> bool" where
  "flt (Fin a) (Fin b) = (a < b)"
| "flt NaN y = False"
| "flt x NaN = False"
| "flt x NInf = False"
| "flt PInf y = False"
| "flt NInf y = True"
| "flt x PInf = True"

fun fle :: "pyfloat \<Rightarrow> pyfloat \<Rightarrow> bool" where
  "fle (Fin a) (Fin b) = (a \<le> b)"
| "fle NaN y = False"
| "fle x NaN = False"
| "fle NInf y = True"
| "fle x PInf = True"
| "fle x NInf = False"
| "fle PInf y = False"

definition fabs :: "pyfloat \<Rightarrow> pyfloat" where
  "fabs x = (case x of Fin a \<Rightarrow> Fin \<bar>a\<bar> | PInf \<Rightarrow> PInf | NInf \<Rightarrow> PInf | NaN \<Rightarrow> NaN)"

text \<open>\<open>int(x)\<close> on a finite float truncates towards zero.\<close>

definition py_int :: "real \<Rightarrow> int" where
  "py_int x = (if 0 \<le> x then \<lfloor>x\<rfloor> else \<lceil>x\<rceil>)"

text \<open>\<open>str(n)\<close> for an integer, as an f-string prints it.\<close>

fun str_nat :: "nat \<Rightarrow> string" where
  "str_nat n =
     (if n < 10 then [char_of (48 + n)] else str_nat (n div 10) @ [char_of (48 + n mod 10)])"

definition str_int :: "int \<Rightarrow> string" where
  "str_int i = (if i < 0 then CHR ''-'' # str_nat (nat (- i)) else str_nat (nat i))"

fun join_with :: "string \<Rightarrow> string list \<Rightarrow> string" where
  "join_with sep [] = []"
| "join_with sep [p] = p"
| "join_with sep (p # q # ps) = p @ sep @ join_with sep (q # ps)"


section \<open>Data model\<close>

datatype CloneState = OMEGA | ALPHA

text \<open>Character attributes including implants and boosters.\<close>

record Attributes =
  intelligence :: int
  perception :: int
  charisma :: int
  willpower :: int
  memory :: int
  int_implant :: int
  per_implant :: int
  cha_implant :: int
  wil_implant :: int
  mem_implant :: int
  booster_bonus :: int

definition effective_intelligence :: "Attributes \<Rightarrow> int" where
  "effective_intelligence a = intelligence a + int_implant a + booster_bonus a"

definition effective_perception :: "Attributes \<Rightarrow> int" where
  "effective_perception a = perception a + per_implant a + booster_bonus a"

definition effective_charisma :: "Attributes \<Rightarrow> int" where
  "effective_charisma a = charisma a + cha_implant a + booster_bonus a"

definition effective_willpower :: "Attributes \<Rightarrow> int" where
  "effective_willpower a = willpower a + wil_implant a + booster_bonus a"

definition effective_memory :: "Attributes \<Rightarrow> int" where
  "effective_memory a = memory a + mem_implant a + booster_bonus a"

text \<open>A skill to train. The attribute names are strings, as in the source.\<close>

record Skill =
  name :: string
  rank :: int
  primary_attr :: string
  secondary_attr :: string
  current_level :: int
  current_sp :: int

section \<open>Work-item model\<close>

text \<open>
  The SP of a level are an integer, cut off from \<open>250 * rank * SQRT32 ** (level - 1)\<close>.
  The square root and the power come from the C library, whose rounding Python does
  not fix; they are the real square root and the real power here. At level 1 the
  power is 1 and the product is the integer \<open>250 * rank\<close> in the program as well.
\<close>

definition SQRT32 :: real where
  "SQRT32 = sqrt 32"

definition sp_for_level :: "Skill \<Rightarrow> int \<Rightarrow> int" where
  "sp_for_level skill level =
     (if level < 1 \<or> level > 5 then 0
      else py_int (250 * real_of_int (rank skill) * SQRT32 ^ nat (level - 1)))"

text \<open>The loop over \<open>range(1, level + 1)\<close>, which is empty for \<open>level < 1\<close>.\<close>

definition total_sp_at_level :: "Skill \<Rightarrow> int \<Rightarrow> int" where
  "total_sp_at_level skill level = foldl (\<lambda>total lvl. total + sp_for_level skill lvl) 0 [1..level]"

definition sp_to_train :: "Skill \<Rightarrow> int \<Rightarrow> int" where
  "sp_to_train skill target_level =
     (if target_level \<le> current_level skill then 0
      else let target_sp = total_sp_at_level skill target_level;
               current_total = total_sp_at_level skill (current_level skill) + current_sp skill
           in max 0 (target_sp - current_total))"

section \<open>Rate model\<close>

text \<open>The dictionary literal built from the five effective attributes.\<close>

definition attr_map :: "Attributes \<Rightarrow> string \<rightharpoonup> int" where
  "attr_map attrs =
     [''intelligence'' \<mapsto> effective_intelligence attrs,
      ''perception'' \<mapsto> effective_perception attrs,
      ''charisma'' \<mapsto> effective_charisma attrs,
      ''willpower'' \<mapsto> effective_willpower attrs,
      ''memory'' \<mapsto> effective_memory attrs]"

definition lookup_attr :: "Attributes \<Rightarrow> string \<Rightarrow> error + int" where
  "lookup_attr attrs key = (case attr_map attrs key of None \<Rightarrow> Inl (KeyError key) | Some v \<Rightarrow> Inr v)"

definition calculate_sp_per_hour :: "Attributes \<Rightarrow> Skill \<Rightarrow> CloneState \<Rightarrow> error + int" where
  "calculate_sp_per_hour attrs skill clone_state =
     bind_err (lookup_attr attrs (primary_attr skill)) (\<lambda>primary.
     bind_err (lookup_attr attrs (secondary_attr skill)) (\<lambda>secondary.
       if clone_state = OMEGA then Inr (primary * 60 + secondary * 30)
       else Inr (primary * 30 + secondary * 15)))"

text \<open>The rate is an integer at every call, the SP an integer or a float.\<close>

definition calculate_training_time :: "(real \<Rightarrow> real) \<Rightarrow> pynum \<Rightarrow> int \<Rightarrow> pyfloat" where
  "calculate_training_time rnd sp sp_per_hour =
     (if sp_per_hour \<le> 0 then PInf else truediv rnd sp sp_per_hour)"

section \<open>Rendering of durations\<close>

text \<open>
  \<open>format_time\<close> of the training-time tool. \<open>int(hours * 3600)\<close> raises ValueError on
  NaN and OverflowError on an infinity; positive infinity is caught by the test before
  it, negative infinity is not.
\<close>

definition inf_sign :: string where
  "inf_sign = [char_of (226::nat), char_of (136::nat), char_of (158::nat)]"

definition format_parts :: "int \<Rightarrow> string list" where
  "format_parts total_seconds =
     (let days = total_seconds div 86400; remainder = total_seconds mod 86400;
          hours_part = remainder div 3600; remainder' = remainder mod 3600;
          minutes = remainder' div 60; seconds = remainder' mod 60;
          parts = (if days > 0 then [str_int days @ ''d''] else [])
                @ (if hours_part > 0 then [str_int hours_part @ ''h''] else [])
                @ (if minutes > 0 then [str_int minutes @ ''m''] else [])
      in parts @ (if seconds > 0 \<or> parts = [] then [str_int seconds @ ''s''] else []))"

definition format_time :: "(real \<Rightarrow> real) \<Rightarrow> pyfloat \<Rightarrow> error + string" where
  "format_time rnd hours =
     (if hours = PInf then Inr inf_sign
      else case fmul rnd hours (to_float rnd 3600) of
             Fin s \<Rightarrow> Inr (join_with '' '' (format_parts (py_int s)))
           | NaN \<Rightarrow> Inl ValueError
           | _ \<Rightarrow> Inl OverflowError)"

section \<open>Booster-aware scheduler\<close>

text \<open>
  The arithmetic of one pass through the loop of \<open>validate_plan\<close>: from the booster
  strength, the booster hours left, the SP needed and the two rates to the base time,
  the actual time, the time saved and the booster hours left afterwards.
\<close>

record outcome =
  out_time_base :: pyfloat
  out_time_actual :: pyfloat
  out_time_saved :: pyfloat
  out_booster_remaining :: pyfloat

definition booster_step :: "(real \<Rightarrow> real) \<Rightarrow> int \<Rightarrow> pyfloat \<Rightarrow> int \<Rightarrow> int \<Rightarrow> int \<Rightarrow> outcome" where
  "booster_step rnd bonus remaining sp_needed sp_per_hour_base sp_per_hour_boosted =
     (let time_base = calculate_training_time rnd (PyInt sp_needed) sp_per_hour_base in
      if bonus > 0 \<and> flt (Fin 0) remaining then
        let sp_can_train_boosted = fmul rnd remaining (to_float rnd sp_per_hour_boosted) in
        if fle (fl sp_needed) sp_can_train_boosted then
          let time_actual = calculate_training_time rnd (PyInt sp_needed) sp_per_hour_boosted in
          \<lparr>out_time_base = time_base, out_time_actual = time_actual,
           out_time_saved = fsub rnd time_base time_actual,
           out_booster_remaining = fsub rnd remaining time_actual\<rparr>
        else
          let time_boosted_part = remaining;
              sp_trained_boosted = fmul rnd time_boosted_part (to_float rnd sp_per_hour_boosted);
              sp_remaining = fsub rnd (to_float rnd sp_needed) sp_trained_boosted;
              time_normal_part = calculate_training_time rnd (PyFloat sp_remaining) sp_per_hour_base;
              time_actual = fadd rnd time_boosted_part time_normal_part in
          \<lparr>out_time_base = time_base, out_time_actual = time_actual,
           out_time_saved = fsub rnd time_base time_actual,
           out_booster_remaining = Fin 0\<rparr>
      else
        \<lparr>out_time_base = time_base, out_time_actual = time_base,
         out_time_saved = Fin 0, out_booster_remaining = remaining\<rparr>)"

text \<open>
  One printed line of the table, as the values it is printed from. The skills of a
  plan are objects that the loop updates in place and that a plan may list more than
  once, so a plan is a list of references into a store of skills.
\<close>

record row =
  row_name :: string
  row_from_level :: int
  row_target_level :: int
  row_sp_needed :: int
  row_time_base :: pyfloat
  row_time_actual :: pyfloat
  row_time_saved :: pyfloat

type_synonym skill_store = "nat \<Rightarrow> Skill"

record plan_state =
  total_time_base :: pyfloat
  total_time_boosted :: pyfloat
  booster_remaining :: pyfloat
  store :: skill_store
  rows :: "row list"

text \<open>
  The loop body. The line is printed before the skill is updated, and printing calls
  \<open>format_time\<close> on the three times: an exception there leaves the loop.
\<close>

definition plan_body ::
  "(real \<Rightarrow> real) \<Rightarrow> Attributes \<Rightarrow> Attributes \<Rightarrow> int \<Rightarrow> CloneState \<Rightarrow> plan_state \<Rightarrow> nat \<times> int \<Rightarrow> error + plan_state" where
  "plan_body rnd attrs boosted_attrs bonus clone_state st item =
     (let skill = store st (fst item); target_level = snd item;
          sp_needed = sp_to_train skill target_level in
      bind_err (calculate_sp_per_hour attrs skill clone_state) (\<lambda>sp_per_hour_base.
      bind_err (calculate_sp_per_hour boosted_attrs skill clone_state) (\<lambda>sp_per_hour_boosted.
        let out = booster_step rnd bonus (booster_remaining st) sp_needed
                    sp_per_hour_base sp_per_hour_boosted in
        bind_err (format_time rnd (out_time_base out)) (\<lambda>_.
        bind_err (format_time rnd (out_time_actual out)) (\<lambda>_.
        bind_err (format_time rnd (out_time_saved out)) (\<lambda>_.
          Inr \<lparr>total_time_base = fadd rnd (total_time_base st) (out_time_base out),
               total_time_boosted = fadd rnd (total_time_boosted st) (out_time_actual out),
               booster_remaining = out_booster_remaining out,
               store = (store st)(fst item := skill\<lparr>current_level := target_level, current_sp := 0\<rparr>),
               rows = rows st @
                 [\<lparr>row_name = name skill, row_from_level = current_level skill,
                   row_target_level = target_level, row_sp_needed = sp_needed,
                   row_time_base = out_time_base out, row_time_actual = out_time_actual out,
                   row_time_saved = out_time_saved out\<rparr>]\<rparr>))))))"

fun plan_loop ::
  "(real \<Rightarrow> real) \<Rightarrow> Attributes \<Rightarrow> Attributes \<Rightarrow> int \<Rightarrow> CloneState \<Rightarrow> plan_state \<Rightarrow> (nat \<times> int) list \<Rightarrow> error + plan_state" where
  "plan_loop rnd attrs boosted_attrs bonus clone_state st [] = Inr st"
| "plan_loop rnd attrs boosted_attrs bonus clone_state st (item # items) =
     bind_err (plan_body rnd attrs boosted_attrs bonus clone_state st item)
       (\<lambda>st'. plan_loop rnd attrs boosted_attrs bonus clone_state st' items)"

text \<open>The states after each item that the loop finishes, in order.\<close>

fun plan_states ::
  "(real \<Rightarrow> real) \<Rightarrow> Attributes \<Rightarrow> Attributes \<Rightarrow> int \<Rightarrow> CloneState \<Rightarrow> plan_state \<Rightarrow> (nat \<times> int) list \<Rightarrow> plan_state list" where
  "plan_states rnd attrs boosted_attrs bonus clone_state st [] = []"
| "plan_states rnd attrs boosted_attrs bonus clone_state st (item # items) =
     (case plan_body rnd attrs boosted_attrs bonus clone_state st item of
        Inl e \<Rightarrow> []
      | Inr st' \<Rightarrow> st' # plan_states rnd attrs boosted_attrs bonus clone_state st' items)"

definition boosted_attributes :: "Attributes \<Rightarrow> int \<Rightarrow> Attributes" where
  "boosted_attributes attrs bonus =
     \<lparr>intelligence = intelligence attrs, perception = perception attrs,
      charisma = charisma attrs, willpower = willpower attrs, memory = memory attrs,
      int_implant = int_implant attrs, per_implant = per_implant attrs,
      cha_implant = cha_implant attrs, wil_implant = wil_implant attrs,
      mem_implant = mem_implant attrs, booster_bonus = bonus\<rparr>"

definition initial_state :: "pyfloat \<Rightarrow> skill_store \<Rightarrow> plan_state" where
  "initial_state booster_hours skills0 =
     \<lparr>total_time_base = Fin 0, total_time_boosted = Fin 0,
      booster_remaining = booster_hours, store = skills0, rows = []\<rparr>"

text \<open>The heading prints the booster duration when the strength is positive.\<close>

definition plan_heading :: "(real \<Rightarrow> real) \<Rightarrow> int \<Rightarrow> pyfloat \<Rightarrow> error + string" where
  "plan_heading rnd bonus booster_hours = (if bonus > 0 then format_time rnd booster_hours else Inr [])"

record plan_report =
  final :: plan_state
  total_saved :: pyfloat

definition validate_plan ::
  "(real \<Rightarrow> real) \<Rightarrow> Attributes \<Rightarrow> skill_store \<Rightarrow> (nat \<times> int) list \<Rightarrow> int \<Rightarrow> pyfloat \<Rightarrow> CloneState \<Rightarrow> error + plan_report" where
  "validate_plan rnd attrs skills0 skills bonus booster_hours clone_state =
     bind_err (plan_heading rnd bonus booster_hours) (\<lambda>_.
     bind_err (plan_loop rnd attrs (boosted_attributes attrs bonus) bonus clone_state
                 (initial_state booster_hours skills0) skills) (\<lambda>st.
     bind_err (format_time rnd (total_time_base st)) (\<lambda>_.
     bind_err (format_time rnd (total_time_boosted st)) (\<lambda>_.
     bind_err (format_time rnd (fsub rnd (total_time_base st) (total_time_boosted st))) (\<lambda>_.
       Inr \<lparr>final = st, total_saved = fsub rnd (total_time_base st) (total_time_boosted st)\<rparr>)))))"

text \<open>The states a run of \<open>validate_plan\<close> goes through, one per finished item.\<close>

definition plan_run ::
  "(real \<Rightarrow> real) \<Rightarrow> Attributes \<Rightarrow> skill_store \<Rightarrow> (nat \<times> int) list \<Rightarrow> int \<Rightarrow> pyfloat \<Rightarrow> CloneState \<Rightarrow> plan_state list" where
  "plan_run rnd attrs skills0 skills bonus booster_hours clone_state =
     (case plan_heading rnd bonus booster_hours of
        Inl e \<Rightarrow> []
      | Inr _ \<Rightarrow> plan_states rnd attrs (boosted_attributes attrs bonus) bonus clone_state
                  (initial_state booster_hours skills0) skills)"

section \<open>Single-skill validation\<close>

text \<open>
  \<open>validate_single_skill\<close> prints a report and returns nothing; the model returns the
  values the report is printed from. The booster section is printed only for a
  positive strength, so its two values are optional. The skill is not updated.
\<close>

record single_report =
  single_sp_needed :: int
  single_time_base :: pyfloat
  single_time_boosted :: "pyfloat option"
  single_time_saved :: "pyfloat option"

definition single_boosted_time :: "(real \<Rightarrow> real) \<Rightarrow> pyfloat \<Rightarrow> int \<Rightarrow> int \<Rightarrow> int \<Rightarrow> error + pyfloat" where
  "single_boosted_time rnd booster_hours sp_needed sp_per_hour_base sp_per_hour_boosted =
     (if flt (Fin 0) booster_hours \<and>
         flt (fmul rnd booster_hours (to_float rnd sp_per_hour_boosted)) (fl sp_needed) then
        let sp_trained_boosted = fmul rnd booster_hours (to_float rnd sp_per_hour_boosted);
            sp_remaining = fsub rnd (to_float rnd sp_needed) sp_trained_boosted in
        bind_err (py_truediv rnd sp_remaining (to_float rnd sp_per_hour_base)) (\<lambda>time_remaining.
        let total_time = fadd rnd booster_hours time_remaining in
        bind_err (format_time rnd booster_hours) (\<lambda>_.
        bind_err (format_time rnd time_remaining) (\<lambda>_.
        bind_err (format_time rnd total_time) (\<lambda>_. Inr total_time))))
      else
        let time_boosted_hours = calculate_training_time rnd (PyInt sp_needed) sp_per_hour_boosted in
        bind_err (format_time rnd time_boosted_hours) (\<lambda>_. Inr time_boosted_hours))"

definition validate_single_skill ::
  "(real \<Rightarrow> real) \<Rightarrow> Attributes \<Rightarrow> Skill \<Rightarrow> int \<Rightarrow> int \<Rightarrow> pyfloat \<Rightarrow> CloneState \<Rightarrow> error + single_report" where
  "validate_single_skill rnd attrs skill target_level bonus booster_hours clone_state =
     (let sp_needed = sp_to_train skill target_level in
      bind_err (calculate_sp_per_hour attrs skill clone_state) (\<lambda>sp_per_hour_base.
      let time_base_hours = calculate_training_time rnd (PyInt sp_needed) sp_per_hour_base in
      bind_err (lookup_attr attrs (primary_attr skill)) (\<lambda>primary_val.
      bind_err (lookup_attr attrs (secondary_attr skill)) (\<lambda>secondary_val.
      bind_err (format_time rnd time_base_hours) (\<lambda>_.
      if bonus > 0 then
        bind_err (calculate_sp_per_hour (boosted_attributes attrs bonus) skill clone_state)
          (\<lambda>sp_per_hour_boosted.
        bind_err (single_boosted_time rnd booster_hours sp_needed sp_per_hour_base sp_per_hour_boosted)
          (\<lambda>shown.
        let time_boosted_full = calculate_training_time rnd (PyInt sp_needed) sp_per_hour_boosted;
            time_saved = fsub rnd time_base_hours time_boosted_full in
        bind_err (format_time rnd time_base_hours) (\<lambda>_.
        bind_err (format_time rnd time_boosted_full) (\<lambda>_.
        bind_err (format_time rnd time_saved) (\<lambda>_.
        bind_err (py_truediv rnd time_saved time_base_hours) (\<lambda>ratio.
          Inr \<lparr>single_sp_needed = sp_needed, single_time_base = time_base_hours,
               single_time_boosted = Some shown, single_time_saved = Some time_saved\<rparr>))))))
      else
        Inr \<lparr>single_sp_needed = sp_needed, single_time_base = time_base_hours,
             single_time_boosted = None, single_time_saved = None\<rparr>)))))"

section \<open>Totals of the export validator\<close>

text \<open>
  A parsed line of the exported table. Six of its fields have the names of fields of
  \<open>Skill\<close> and \<open>Attributes\<close> or of \<open>sp_to_train\<close>; all fields carry the prefix
  \<open>entry_\<close> here.
\<close>

record SkillEntry =
  entry_name :: string
  entry_level :: int
  entry_rank :: int
  entry_primary_attr :: string
  entry_secondary_attr :: string
  entry_primary_value :: pyfloat
  entry_secondary_value :: pyfloat
  entry_booster_bonus :: int
  entry_sp_to_train :: int
  entry_sp_per_hour_omega :: pyfloat
  entry_training_rate :: pyfloat
  entry_training_time_hours :: pyfloat
  entry_training_time_formatted :: string
  entry_old_training_time_hours :: pyfloat
  entry_time_saved_hours :: pyfloat
  entry_booster_remaining_hours :: pyfloat

text \<open>\<open>format_time\<close> of the export validator, which renders a negative duration by a call to itself.\<close>

definition export_format_parts :: "int \<Rightarrow> string" where
  "export_format_parts total_seconds =
     (let days = total_seconds div 86400; remainder = total_seconds mod 86400;
          hours_part = remainder div 3600; remainder' = remainder mod 3600;
          minutes = remainder' div 60; seconds = remainder' mod 60 in
      if days > 0 then str_int days @ ''d '' @ str_int hours_part @ ''h '' @ str_int minutes @ ''m''
      else if hours_part > 0 then
        str_int hours_part @ ''h '' @ str_int minutes @ ''m '' @ str_int seconds @ ''s''
      else str_int minutes @ ''m '' @ str_int seconds @ ''s'')"

function export_format_time :: "(real \<Rightarrow> real) \<Rightarrow> pyfloat \<Rightarrow> error + string" where
  "export_format_time rnd hours =
     (if hours = PInf then Inr ''inf''
      else if flt hours (Fin 0) then
        bind_err (export_format_time rnd (fabs hours)) (\<lambda>s. Inr (CHR ''-'' # s))
      else (case fmul rnd hours (to_float rnd 3600) of
              Fin s \<Rightarrow> Inr (export_format_parts (py_int s))
            | NaN \<Rightarrow> Inl ValueError
            | _ \<Rightarrow> Inl OverflowError))"
  by pat_completeness auto
termination
  by (relation "measure (\<lambda>(rnd, h). if flt h (Fin 0) then 1 else 0)")
     (auto simp: fabs_def split: pyfloat.splits)

record totals =
  total_time :: pyfloat
  total_old_time :: pyfloat
  total_time_saved :: pyfloat

text \<open>
  One pass of the loop of \<open>main\<close> over the entries, as far as the totals go: the
  per-entry checks of \<open>validate_entry\<close> only produce messages and a count.
\<close>

definition main_body :: "(real \<Rightarrow> real) \<Rightarrow> totals \<Rightarrow> SkillEntry \<Rightarrow> error + totals" where
  "main_body rnd t entry =
     (let t' = \<lparr>total_time = fadd rnd (total_time t) (entry_training_time_hours entry),
                total_old_time = fadd rnd (total_old_time t) (entry_old_training_time_hours entry),
                total_time_saved =
                  (if flt (Fin 0) (entry_time_saved_hours entry)
                   then fadd rnd (total_time_saved t) (entry_time_saved_hours entry)
                   else total_time_saved t)\<rparr> in
      bind_err (if flt (Fin 0) (entry_time_saved_hours entry)
                then export_format_time rnd (entry_time_saved_hours entry) else Inr ''-'') (\<lambda>saved_str.
      bind_err (if flt (Fin 0) (entry_old_training_time_hours entry)
                then export_format_time rnd (entry_old_training_time_hours entry) else Inr ''-'') (\<lambda>old_time_str.
      bind_err (export_format_time rnd (entry_training_time_hours entry)) (\<lambda>_. Inr t'))))"

fun main_loop :: "(real \<Rightarrow> real) \<Rightarrow> totals \<Rightarrow> SkillEntry list \<Rightarrow> error + totals" where
  "main_loop rnd t [] = Inr t"
| "main_loop rnd t (entry # entries) = bind_err (main_body rnd t entry) (\<lambda>t'. main_loop rnd t' entries)"

record summary =
  summary_time :: pyfloat
  summary_baseline :: "pyfloat option"
  summary_time_saved :: "pyfloat option"
  summary_percent_saved :: "pyfloat option"

definition main_summary :: "(real \<Rightarrow> real) \<Rightarrow> SkillEntry list \<Rightarrow> error + summary" where
  "main_summary rnd entries =
     (if entries = [] then Inl SystemExit
      else
        bind_err (main_loop rnd \<lparr>total_time = Fin 0, total_old_time = Fin 0, total_time_saved = Fin 0\<rparr> entries)
          (\<lambda>t.
        bind_err (export_format_time rnd (total_time t)) (\<lambda>_.
        if flt (Fin 0) (total_old_time t) then
          bind_err (export_format_time rnd (total_old_time t)) (\<lambda>_.
          bind_err (export_format_time rnd (total_time_saved t)) (\<lambda>_.
          let percent_saved =
                fmul rnd (fdiv rnd (total_time_saved t) (total_old_time t)) (to_float rnd 100) in
            Inr \<lparr>summary_time = total_time t, summary_baseline = Some (total_old_time t),
                 summary_time_saved = Some (total_time_saved t),
                 summary_percent_saved = Some percent_saved\<rparr>))
        else
          Inr \<lparr>summary_time = total_time t, summary_baseline = None,
               summary_time_saved = None, summary_percent_saved = None\<rparr>)))"

section \<open>Notions used in the statements\<close>

text \<open>
  What the statements below use of a rounding: it keeps the order, it keeps 0 and 1,
  and a rounded number is not changed by rounding it again. A float is representable
  when rounding does not change it: the floats of the program are.
\<close>

definition rounding :: "(real \<Rightarrow> real) \<Rightarrow> bool" where
  "rounding rnd \<longleftrightarrow> mono rnd \<and> rnd 0 = 0 \<and> rnd 1 = 1 \<and> (\<forall>x. rnd (rnd x) = rnd x)"

definition representable :: "(real \<Rightarrow> real) \<Rightarrow> pyfloat \<Rightarrow> bool" where
  "representable rnd x = (case x of Fin a \<Rightarrow> rnd a = a | _ \<Rightarrow> True)"

text \<open>A float that \<open>format_time\<close> renders without raising.\<close>

definition printable :: "pyfloat \<Rightarrow> bool" where
  "printable x = (x \<noteq> NaN \<and> x \<noteq> NInf)"

text \<open>The state the loop body leaves behind when all three times of the line print.\<close>

definition finish_item :: "(real \<Rightarrow> real) \<Rightarrow> plan_state \<Rightarrow> nat \<times> int \<Rightarrow> outcome \<Rightarrow> plan_state" where
  "finish_item rnd st item out =
     \<lparr>total_time_base = fadd rnd (total_time_base st) (out_time_base out),
      total_time_boosted = fadd rnd (total_time_boosted st) (out_time_actual out),
      booster_remaining = out_booster_remaining out,
      store = (store st)(fst item := (store st (fst item))\<lparr>current_level := snd item, current_sp := 0\<rparr>),
      rows = rows st @
        [\<lparr>row_name = name (store st (fst item)), row_from_level = current_level (store st (fst item)),
          row_target_level = snd item, row_sp_needed = sp_to_train (store st (fst item)) (snd item),
          row_time_base = out_time_base out, row_time_actual = out_time_actual out,
          row_time_saved = out_time_saved out\<rparr>]\<rparr>"


text \<open>A sum of floats, accumulated from zero in list order as the loops do.\<close>

definition fsum :: "(real \<Rightarrow> real) \<Rightarrow> pyfloat list \<Rightarrow> pyfloat" where
  "fsum rnd xs = foldl (fadd rnd) (Fin 0) xs"

text \<open>Example data for the concrete runs below.\<close>

definition demo_attrs :: Attributes where
  "demo_attrs = \<lparr>intelligence = 0, perception = 5, charisma = 0, willpower = 5, memory = 0,
     int_implant = 0, per_implant = 0, cha_implant = 0, wil_implant = 0, mem_implant = 0,
     booster_bonus = 0\<rparr>"

definition demo_skill :: Skill where
  "demo_skill = \<lparr>name = ''Gunnery'', rank = 9, primary_attr = ''perception'',
     secondary_attr = ''willpower'', current_level = 0, current_sp = 0\<rparr>"

text \<open>
  A skill already at level 3, a character whose attributes are all zero, and one whose
  attributes are all \<open>-1\<close>, for which a booster of strength 1 gives the boosted rate 0.
\<close>

definition trained_skill :: Skill where
  "trained_skill = \<lparr>name = ''Gunnery'', rank = 9, primary_attr = ''perception'',
     secondary_attr = ''willpower'', current_level = 3, current_sp = 0\<rparr>"

definition zero_attrs :: Attributes where
  "zero_attrs = \<lparr>intelligence = 0, perception = 0, charisma = 0, willpower = 0, memory = 0,
     int_implant = 0, per_implant = 0, cha_implant = 0, wil_implant = 0, mem_implant = 0,
     booster_bonus = 0\<rparr>"

definition negative_attrs :: Attributes where
  "negative_attrs = \<lparr>intelligence = - 1, perception = - 1, charisma = - 1, willpower = - 1,
     memory = - 1, int_implant = 0, per_implant = 0, cha_implant = 0, wil_implant = 0,
     mem_implant = 0, booster_bonus = 0\<rparr>"

text \<open>
  A character and a plan of two skills whose durations are thirds of an hour. With a
  booster of strength 1 the rates are 360 and 450 SP per hour for the first skill,
  which needs 1500 SP, and 1260 and 1350 for the second, which needs 2250 SP.
\<close>

definition thirds_attrs :: Attributes where
  "thirds_attrs = \<lparr>intelligence = 14, perception = 4, charisma = 0, willpower = 4, memory = 14,
     int_implant = 0, per_implant = 0, cha_implant = 0, wil_implant = 0, mem_implant = 0,
     booster_bonus = 0\<rparr>"

definition thirds_store :: skill_store where
  "thirds_store r =
     (if r = 0 then \<lparr>name = ''Navigation'', rank = 6, primary_attr = ''perception'',
                     secondary_attr = ''willpower'', current_level = 0, current_sp = 0\<rparr>
      else \<lparr>name = ''Science'', rank = 9, primary_attr = ''intelligence'',
            secondary_attr = ''memory'', current_level = 0, current_sp = 0\<rparr>)"

text \<open>
  Two lines of an exported table: the first took an hour longer than its baseline, the
  second two hours less.
\<close>

definition demo_entry :: "int \<Rightarrow> pyfloat \<Rightarrow> pyfloat \<Rightarrow> pyfloat \<Rightarrow> SkillEntry" where
  "demo_entry sp time old saved =
     \<lparr>entry_name = ''Gunnery'', entry_level = 1, entry_rank = 1,
      entry_primary_attr = ''perception'', entry_secondary_attr = ''willpower'',
      entry_primary_value = Fin 5, entry_secondary_value = Fin 5, entry_booster_bonus = 0,
      entry_sp_to_train = sp, entry_sp_per_hour_omega = Fin 450, entry_training_rate = Fin 1,
      entry_training_time_hours = time, entry_training_time_formatted = '''',
      entry_old_training_time_hours = old, entry_time_saved_hours = saved,
      entry_booster_remaining_hours = Fin 0\<rparr>"

definition demo_entries :: "SkillEntry list" where
  "demo_entries = [demo_entry 900 (Fin 2) (Fin 1) (Fin (- 1)), demo_entry 450 (Fin 1) (Fin 3) (Fin 2)]"

section \<open>The rounding of binary64\<close>

lemma rhe_int [simp]: "round_half_even (of_int n) = n"
  by (simp add: round_half_even_def)

lemma rhe_bounds: "\<lfloor>y\<rfloor> \<le> round_half_even y" "round_half_even y \<le> \<lfloor>y\<rfloor> + 1"
  by (simp_all add: round_half_even_def Let_def)

lemma rhe_same_floor:
  assumes "y \<le> z" "\<lfloor>y\<rfloor> = \<lfloor>z\<rfloor>"
  shows "round_half_even y \<le> round_half_even z"
proof -
  have "y - of_int \<lfloor>z\<rfloor> \<le> z - of_int \<lfloor>z\<rfloor>" using assms(1) by simp
  then show ?thesis
    unfolding round_half_even_def Let_def assms(2) by (simp split: if_splits)
qed

lemma rhe_mono: "y \<le> z \<Longrightarrow> round_half_even y \<le> round_half_even z"
proof -
  assume yz: "y \<le> z"
  then have fl: "\<lfloor>y\<rfloor> \<le> \<lfloor>z\<rfloor>" by (rule floor_mono)
  show ?thesis
  proof (cases "\<lfloor>y\<rfloor> = \<lfloor>z\<rfloor>")
    case True
    with yz show ?thesis by (rule rhe_same_floor)
  next
    case False
    with fl have "\<lfloor>y\<rfloor> + 1 \<le> \<lfloor>z\<rfloor>" by simp
    with rhe_bounds(2) [of y] rhe_bounds(1) [of z] show ?thesis by linarith
  qed
qed

lemma rhe_minus: "round_half_even (- y) = - round_half_even y"
proof (cases "y = of_int \<lfloor>y\<rfloor>")
  case True
  then obtain n where "y = of_int n" ..
  then have "- y = of_int (- n)" by simp
  with \<open>y = of_int n\<close> show ?thesis
    by (simp only: rhe_int)
next
  case False
  then have fm: "\<lfloor>- y\<rfloor> = - \<lfloor>y\<rfloor> - 1"
    by (simp add: floor_minus ceiling_altdef)
  define f where "f = \<lfloor>y\<rfloor>"
  define d where "d = y - of_int f"
  have d': "- y - of_int (- f - 1) = 1 - d"
    by (simp add: d_def)
  have ev: "even (- f - 1) \<longleftrightarrow> odd f" by simp
  have r1: "round_half_even y =
      (if d < 1/2 then f else if 1/2 < d then f + 1 else if even f then f else f + 1)"
    by (simp add: round_half_even_def Let_def f_def d_def)
  have r2: "round_half_even (- y) =
      (if 1 - d < 1/2 then - f - 1 else if 1/2 < 1 - d then - f else if odd f then - f - 1 else - f)"
    unfolding round_half_even_def Let_def fm f_def [symmetric] d' ev by simp
  show ?thesis
    unfolding r1 r2 by (simp split: if_splits)
qed


lemma two_powr_pos [simp]: "0 < (2::real) powr y"
  by simp

lemma two_powr_shift: "(2::real) powr (y + 52) = 2 ^ 52 * 2 powr y"
  by (simp add: powr_add mult.commute)

lemma two_powr_shift53: "(2::real) powr (y + 53) = 2 ^ 53 * 2 powr y"
  by (simp add: powr_add mult.commute)

lemma exponent_bounds:
  assumes "x \<noteq> 0"
  defines "e \<equiv> \<lfloor>log 2 \<bar>x\<bar>\<rfloor> - 52"
  shows "2 ^ 52 \<le> \<bar>x\<bar> / 2 powr of_int e" "\<bar>x\<bar> / 2 powr of_int e < 2 ^ 53"
proof -
  have pos: "0 < \<bar>x\<bar>" using assms(1) by simp
  have "of_int (e + 52) \<le> log 2 \<bar>x\<bar>"
    by (simp add: e_def)
  then have "2 powr of_int (e + 52) \<le> \<bar>x\<bar>"
    using pos by (simp only: le_log_iff [OF _ pos] one_less_numeral_iff semiring_norm)
  then show "2 ^ 52 \<le> \<bar>x\<bar> / 2 powr of_int e"
    by (simp add: two_powr_shift pos_le_divide_eq)
  have "log 2 \<bar>x\<bar> < of_int (e + 53)"
    by (simp add: e_def) linarith
  then have "\<bar>x\<bar> < 2 powr of_int (e + 53)"
    using pos by (simp only: log_less_iff [OF _ pos] one_less_numeral_iff semiring_norm)
  then show "\<bar>x\<bar> / 2 powr of_int e < 2 ^ 53"
    by (simp add: two_powr_shift53 pos_divide_less_eq)
qed

lemma exponent_unique:
  assumes "2 ^ 52 \<le> \<bar>x\<bar> / 2 powr of_int k" "\<bar>x\<bar> / 2 powr of_int k < 2 ^ 53"
  shows "\<lfloor>log 2 \<bar>x\<bar>\<rfloor> - 52 = k"
proof -
  have pos: "0 < \<bar>x\<bar>"
  proof (rule ccontr)
    assume "\<not> 0 < \<bar>x\<bar>"
    then have "\<bar>x\<bar> = 0" by simp
    with assms(1) show False by simp
  qed
  from assms(1) have "2 powr of_int (k + 52) \<le> \<bar>x\<bar>"
    by (simp add: two_powr_shift pos_le_divide_eq)
  then have a: "of_int (k + 52) \<le> log 2 \<bar>x\<bar>"
    using pos by (simp only: le_log_iff [OF _ pos] one_less_numeral_iff semiring_norm)
  from assms(2) have "\<bar>x\<bar> < 2 powr of_int (k + 53)"
    by (simp add: two_powr_shift53 pos_divide_less_eq)
  then have b: "log 2 \<bar>x\<bar> < of_int (k + 53)"
    using pos by (simp only: log_less_iff [OF _ pos] one_less_numeral_iff semiring_norm)
  have "\<lfloor>log 2 \<bar>x\<bar>\<rfloor> = k + 52"
    using a b by (intro floor_unique) simp_all
  then show ?thesis by simp
qed

lemma binary64_at_exponent:
  assumes "2 ^ 52 \<le> \<bar>x\<bar> / 2 powr of_int k" "\<bar>x\<bar> / 2 powr of_int k < 2 ^ 53"
  shows "binary64 x = of_int (round_half_even (x / 2 powr of_int k)) * 2 powr of_int k"
proof -
  have "x \<noteq> 0" using assms(1) by auto
  then show ?thesis
    by (simp add: binary64_def Let_def exponent_unique [OF assms])
qed


lemma binary64_zero [simp]: "binary64 0 = 0"
  by (simp add: binary64_def)

lemma binary64_minus: "binary64 (- x) = - binary64 x"
  by (simp add: binary64_def Let_def rhe_minus)

lemma binary64_mantissa:
  assumes "0 < x"
  defines "e \<equiv> \<lfloor>log 2 \<bar>x\<bar>\<rfloor> - 52"
  shows "2 ^ 52 \<le> round_half_even (x / 2 powr of_int e)"
    and "round_half_even (x / 2 powr of_int e) \<le> 2 ^ 53"
proof -
  have nz: "x \<noteq> 0" and ax: "\<bar>x\<bar> = x" using assms(1) by simp_all
  from exponent_bounds [OF nz] have lo: "of_int (2 ^ 52) \<le> x / 2 powr of_int e"
    and hi: "x / 2 powr of_int e \<le> of_int (2 ^ 53)"
    by (simp_all add: e_def ax)
  from rhe_mono [OF lo] show "2 ^ 52 \<le> round_half_even (x / 2 powr of_int e)"
    by (simp only: rhe_int)
  from rhe_mono [OF hi] show "round_half_even (x / 2 powr of_int e) \<le> 2 ^ 53"
    by (simp only: rhe_int)
qed

lemma binary64_pos_form:
  assumes "0 < x"
  obtains M e where "binary64 x = of_int M * 2 powr of_int e" "2 ^ 52 \<le> M" "M \<le> 2 ^ 53"
    "e = \<lfloor>log 2 x\<rfloor> - 52"
proof -
  have "x \<noteq> 0" "\<bar>x\<bar> = x" using assms by simp_all
  then have "binary64 x = of_int (round_half_even (x / 2 powr of_int (\<lfloor>log 2 x\<rfloor> - 52)))
      * 2 powr of_int (\<lfloor>log 2 x\<rfloor> - 52)"
    by (simp add: binary64_def Let_def)
  moreover from binary64_mantissa [OF assms] \<open>\<bar>x\<bar> = x\<close>
  have "2 ^ 52 \<le> round_half_even (x / 2 powr of_int (\<lfloor>log 2 x\<rfloor> - 52))"
    "round_half_even (x / 2 powr of_int (\<lfloor>log 2 x\<rfloor> - 52)) \<le> 2 ^ 53"
    by simp_all
  ultimately show ?thesis using that by blast
qed

lemma binary64_pos: "0 < x \<Longrightarrow> 0 < binary64 x"
proof -
  assume "0 < x"
  then obtain M e where f: "binary64 x = of_int M * 2 powr of_int e" and "2 ^ 52 \<le> M"
    by (rule binary64_pos_form)
  moreover have "(0::int) < 2 ^ 52" by simp
  ultimately have "0 < M" by linarith
  with f show ?thesis by simp
qed

lemma binary64_representable:
  assumes "\<bar>m\<bar> < 2 ^ 53"
  shows "binary64 (of_int m * 2 powr of_int k) = of_int m * 2 powr of_int k"
proof (cases "m = 0")
  case True
  then show ?thesis by simp
next
  case False
  define x :: real where "x = of_int m * 2 powr of_int k"
  define e where "e = \<lfloor>log 2 \<bar>x\<bar>\<rfloor> - 52"
  have nz: "x \<noteq> 0" using False by (simp add: x_def)
  have ax: "\<bar>x\<bar> / 2 powr of_int e = of_int \<bar>m\<bar> * 2 powr of_int (k - e)"
    by (simp add: x_def abs_mult powr_diff)
  have ke: "e \<le> k"
  proof (rule ccontr)
    assume "\<not> e \<le> k"
    then have "k - e \<le> - 1" by simp
    then have "(2::real) powr of_int (k - e) \<le> 2 powr of_int (- 1)"
      by (intro powr_mono) simp_all
    then have "(2::real) powr of_int (k - e) \<le> 1 / 2"
      by (simp add: powr_minus_divide)
    then have "real_of_int \<bar>m\<bar> * 2 powr of_int (k - e) \<le> real_of_int \<bar>m\<bar> * (1 / 2)"
      by (intro mult_left_mono) simp_all
    moreover have "real_of_int \<bar>m\<bar> < 2 ^ 53"
      using assms by (metis of_int_less_numeral_power_cancel_iff)
    ultimately have "real_of_int \<bar>m\<bar> * 2 powr of_int (k - e) < (2::real) ^ 52"
      by simp
    with exponent_bounds(1) [OF nz] show False
      by (simp add: e_def [symmetric] ax)
  qed
  then obtain j where j: "k - e = int j"
    by (metis diff_ge_0_iff_ge nonneg_int_cases)
  have pj: "(2::real) powr of_int (k - e) = 2 ^ j"
    by (simp add: j powr_realpow)
  have "x / 2 powr of_int e = of_int m * 2 powr of_int (k - e)"
    by (simp add: x_def powr_diff)
  then have xe: "x / 2 powr of_int e = of_int (m * 2 ^ j)"
    using pj by simp
  have "binary64 x = of_int (round_half_even (x / 2 powr of_int e)) * 2 powr of_int e"
    using nz by (simp add: binary64_def Let_def e_def)
  also have "\<dots> = of_int (m * 2 ^ j) * 2 powr of_int e"
    by (simp only: xe rhe_int)
  also have "\<dots> = of_int m * (2 powr of_int (k - e) * 2 powr of_int e)"
    using pj by simp
  also have "2 powr of_int (k - e) * 2 powr of_int e = (2::real) powr of_int k"
    by (simp add: powr_add [symmetric])
  finally show ?thesis by (simp add: x_def)
qed

lemma binary64_idem: "binary64 (binary64 x) = binary64 x"
proof -
  have pos: "binary64 (binary64 y) = binary64 y" if "0 < y" for y
  proof -
    from that obtain M e where f: "binary64 y = of_int M * 2 powr of_int e"
      and lo: "2 ^ 52 \<le> M" and hi: "M \<le> 2 ^ 53"
      by (rule binary64_pos_form)
    show ?thesis
    proof (cases "M = 2 ^ 53")
      case True
      then have "binary64 y = of_int 1 * 2 powr of_int (e + 53)"
        by (simp add: f two_powr_shift53)
      moreover have "binary64 (of_int 1 * 2 powr of_int (e + 53)) = of_int 1 * 2 powr of_int (e + 53)"
        by (rule binary64_representable) simp
      ultimately show ?thesis by simp
    next
      case False
      with lo hi have "\<bar>M\<bar> < 2 ^ 53" by simp
      then show ?thesis
        unfolding f by (rule binary64_representable)
    qed
  qed
  consider "0 < x" | "x = 0" | "x < 0" by linarith
  then show ?thesis
  proof cases
    case 1
    then show ?thesis by (rule pos)
  next
    case 2
    then show ?thesis by simp
  next
    case 3
    then have "0 < - x" by simp
    from pos [OF this] show ?thesis
      by (simp add: binary64_minus)
  qed
qed

lemma binary64_mono_pos:
  assumes "0 < x" "x \<le> y"
  shows "binary64 x \<le> binary64 y"
proof -
  have ypos: "0 < y" using assms by simp
  define n where "n = \<lfloor>log 2 x\<rfloor>"
  define n' where "n' = \<lfloor>log 2 y\<rfloor>"
  have nn: "n \<le> n'"
    unfolding n_def n'_def using assms by (intro floor_mono) simp
  from assms(1) obtain M e where fx: "binary64 x = of_int M * 2 powr of_int e"
    and Mhi: "M \<le> 2 ^ 53" and e: "e = n - 52"
    unfolding n_def by (rule binary64_pos_form)
  from ypos obtain M' e' where fy: "binary64 y = of_int M' * 2 powr of_int e'"
    and Mlo: "2 ^ 52 \<le> M'" and e': "e' = n' - 52"
    unfolding n'_def by (rule binary64_pos_form)
  show ?thesis
  proof (cases "n = n'")
    case True
    then have ee: "e' = e" by (simp add: e e')
    have "x / 2 powr of_int e \<le> y / 2 powr of_int e"
      using assms(2) by (simp add: divide_right_mono)
    from rhe_mono [OF this] have "round_half_even (x / 2 powr of_int e)
        \<le> round_half_even (y / 2 powr of_int e)" .
    moreover have "binary64 x = of_int (round_half_even (x / 2 powr of_int e)) * 2 powr of_int e"
      using assms(1) by (simp add: binary64_def Let_def e n_def)
    moreover have "binary64 y = of_int (round_half_even (y / 2 powr of_int e)) * 2 powr of_int e"
      using ypos by (simp add: binary64_def Let_def ee [symmetric] e' n'_def)
    ultimately show ?thesis
      by (simp add: mult_right_mono)
  next
    case False
    with nn have step: "e + 53 \<le> e' + 52" by (simp add: e e')
    have "binary64 x \<le> 2 ^ 53 * 2 powr of_int e"
      unfolding fx using Mhi
      by (intro mult_right_mono) (simp_all add: of_int_le_numeral_power_cancel_iff)
    also have "\<dots> = 2 powr (of_int e + 53)"
      by (simp add: two_powr_shift53)
    also have "\<dots> \<le> 2 powr (of_int e' + 52)"
    proof -
      from step have "real_of_int (e + 53) \<le> real_of_int (e' + 52)"
        by (simp only: of_int_le_iff)
      then have "real_of_int e + 53 \<le> real_of_int e' + 52" by simp
      then show ?thesis by (intro powr_mono) simp_all
    qed
    also have "\<dots> = 2 ^ 52 * 2 powr of_int e'"
      by (simp add: two_powr_shift)
    also have "\<dots> \<le> binary64 y"
      unfolding fy using Mlo
      by (intro mult_right_mono) (simp_all add: numeral_power_le_of_int_cancel_iff)
    finally show ?thesis .
  qed
qed

lemma binary64_mono: "x \<le> y \<Longrightarrow> binary64 x \<le> binary64 y"
proof -
  assume xy: "x \<le> y"
  consider "0 < x" | "y < 0" | "x \<le> 0" "0 \<le> y" by linarith
  then show ?thesis
  proof cases
    case 1
    then show ?thesis using xy by (rule binary64_mono_pos)
  next
    case 2
    then have "0 < - y" "- y \<le> - x" using xy by simp_all
    from binary64_mono_pos [OF this] show ?thesis
      by (simp add: binary64_minus)
  next
    case 3
    have "binary64 x \<le> 0"
    proof (cases "x = 0")
      case True then show ?thesis by simp
    next
      case False
      with 3 have "0 < - x" by simp
      from binary64_pos [OF this] show ?thesis by (simp add: binary64_minus)
    qed
    moreover have "0 \<le> binary64 y"
    proof (cases "y = 0")
      case True then show ?thesis by simp
    next
      case False
      with 3 have "0 < y" by simp
      from binary64_pos [OF this] show ?thesis by simp
    qed
    ultimately show ?thesis by simp
  qed
qed

lemma binary64_of_int: "\<bar>m\<bar> < 2 ^ 53 \<Longrightarrow> binary64 (of_int m) = of_int m"
  using binary64_representable [of m 0] by simp

lemma binary64_numeral [simp]:
  "numeral w < (9007199254740992::int) \<Longrightarrow> binary64 (numeral w) = numeral w"
  using binary64_of_int [of "numeral w"] by simp

lemma binary64_one [simp]: "binary64 1 = 1"
  using binary64_of_int [of 1] by simp

lemma binary64_neg_numeral [simp]:
  "numeral w < (9007199254740992::int) \<Longrightarrow> binary64 (- numeral w) = - numeral w"
  by (simp add: binary64_minus)

lemma binary64_halves [simp]:
  "numeral w < (9007199254740992::int) \<Longrightarrow> binary64 (numeral w / 2) = numeral w / 2"
  "binary64 (1 / 2) = 1 / 2"
proof -
  have h: "(2::real) powr - 1 = 1 / 2"
    by (simp add: powr_minus_divide)
  show "binary64 (numeral w / 2) = numeral w / 2" if "numeral w < (9007199254740992::int)"
    using binary64_representable [of "numeral w" "- 1"] that by (simp add: h)
  show "binary64 (1 / 2) = 1 / 2"
    using binary64_representable [of 1 "- 1"] by (simp add: h)
qed

text \<open>
  The value of \<open>binary64\<close> at a number whose size is known: scaled by \<open>2 ^ n\<close> it
  lies between \<open>2 ^ 52\<close> and \<open>2 ^ 53\<close>, and is rounded to an integer there.
\<close>

lemma binary64_eval:
  assumes "2 ^ 52 \<le> \<bar>x\<bar> * 2 ^ n" "\<bar>x\<bar> * 2 ^ n < 2 ^ 53"
  shows "binary64 x = of_int (round_half_even (x * 2 ^ n)) / 2 ^ n"
proof -
  have p: "(2::real) powr of_int (- int n) = 1 / 2 ^ n"
    by (simp add: powr_minus_divide powr_realpow)
  have "binary64 x = of_int (round_half_even (x / 2 powr of_int (- int n))) * 2 powr of_int (- int n)"
    using assms by (intro binary64_at_exponent) (simp_all only: p, simp_all)
  then show ?thesis
    by (simp only: p) simp
qed

lemma rounding_exact: "rounding exact"
  by (simp add: rounding_def mono_def exact_def)

lemma rounding_binary64: "rounding binary64"
  by (simp add: rounding_def mono_def binary64_mono binary64_idem)

lemma rounding_nonneg: "rounding rnd \<Longrightarrow> 0 \<le> x \<Longrightarrow> 0 \<le> rnd x"
  unfolding rounding_def mono_def by metis

lemma rounding_nonpos: "rounding rnd \<Longrightarrow> x \<le> 0 \<Longrightarrow> rnd x \<le> 0"
  unfolding rounding_def mono_def by metis

lemma rounding_mono: "rounding rnd \<Longrightarrow> x \<le> y \<Longrightarrow> rnd x \<le> rnd y"
  unfolding rounding_def mono_def by blast

lemma rounding_rate: "rounding rnd \<Longrightarrow> 0 < n \<Longrightarrow> 1 \<le> rnd (real_of_int n)"
proof -
  assume r: "rounding rnd" and "0 < n"
  then have "1 \<le> real_of_int n" by simp
  from rounding_mono [OF r this] r show ?thesis
    by (simp add: rounding_def)
qed

lemma rounding_idem: "rounding rnd \<Longrightarrow> rnd (rnd x) = rnd x"
  by (simp add: rounding_def)

lemma rounding_zero: "rounding rnd \<Longrightarrow> rnd 0 = 0"
  by (simp add: rounding_def)

section \<open>Basic facts\<close>

declare str_nat.simps [simp del]
declare export_format_time.simps [simp del]

lemma bind_err_simps [simp]:
  "bind_err (Inl e) f = Inl e"
  "bind_err (Inr x) f = f x"
  by (simp_all add: bind_err_def)

lemma bind_err_Inr_iff: "bind_err m f = Inr y \<longleftrightarrow> (\<exists>x. m = Inr x \<and> f x = Inr y)"
  by (cases m) simp_all

lemma bind_format_time:
  "bind_err (format_time rnd x) (\<lambda>_. k) =
     (if printable x then k
      else Inl (if x = NaN \<or> rnd 3600 = 0 then ValueError else OverflowError))"
  by (cases x) (simp_all add: format_time_def printable_def to_float_def inf_times_def)

lemma sp_to_train_nonneg: "0 \<le> sp_to_train skill t"
  by (simp add: sp_to_train_def Let_def)

lemma sp_to_train_trained: "t \<le> current_level skill \<Longrightarrow> sp_to_train skill t = 0"
  by (simp add: sp_to_train_def)




lemma plan_body_unfold:
  "plan_body rnd attrs battrs bonus cs st item =
     (case calculate_sp_per_hour attrs (store st (fst item)) cs of
        Inl e \<Rightarrow> Inl e
      | Inr b \<Rightarrow>
         (case calculate_sp_per_hour battrs (store st (fst item)) cs of
            Inl e \<Rightarrow> Inl e
          | Inr rb \<Rightarrow>
              let out = booster_step rnd bonus (booster_remaining st)
                          (sp_to_train (store st (fst item)) (snd item)) b rb in
              if \<not> printable (out_time_base out)
              then Inl (if out_time_base out = NaN \<or> rnd 3600 = 0 then ValueError else OverflowError)
              else if \<not> printable (out_time_actual out)
              then Inl (if out_time_actual out = NaN \<or> rnd 3600 = 0 then ValueError else OverflowError)
              else if \<not> printable (out_time_saved out)
              then Inl (if out_time_saved out = NaN \<or> rnd 3600 = 0 then ValueError else OverflowError)
              else Inr (finish_item rnd st item out)))"
  by (simp add: plan_body_def Let_def bind_format_time finish_item_def split: sum.splits)

lemma plan_body_Inr:
  assumes "plan_body rnd attrs battrs bonus cs st item = Inr st'"
  obtains b rb where
    "calculate_sp_per_hour attrs (store st (fst item)) cs = Inr b"
    "calculate_sp_per_hour battrs (store st (fst item)) cs = Inr rb"
    "printable (out_time_base (booster_step rnd bonus (booster_remaining st)
        (sp_to_train (store st (fst item)) (snd item)) b rb))"
    "printable (out_time_actual (booster_step rnd bonus (booster_remaining st)
        (sp_to_train (store st (fst item)) (snd item)) b rb))"
    "printable (out_time_saved (booster_step rnd bonus (booster_remaining st)
        (sp_to_train (store st (fst item)) (snd item)) b rb))"
    "st' = finish_item rnd st item (booster_step rnd bonus (booster_remaining st)
        (sp_to_train (store st (fst item)) (snd item)) b rb)"
  using assms
  by (auto simp: plan_body_unfold Let_def split: sum.splits if_splits)

lemma fle_trans: "fle x y \<Longrightarrow> fle y z \<Longrightarrow> fle x z"
  by (cases x; cases y; cases z) simp_all

lemma fle_refl_iff: "fle x x \<longleftrightarrow> x \<noteq> NaN"
  by (cases x) simp_all

lemma flt_not_fle: "flt x y \<Longrightarrow> \<not> fle y x"
  by (cases x; cases y) simp_all

lemma flt_imp_fle: "flt x y \<Longrightarrow> fle x y"
  by (cases x; cases y) simp_all

lemma plan_run_unfold:
  "plan_run rnd attrs skills0 skills bonus booster_hours cs =
     (if bonus > 0 \<and> \<not> printable booster_hours then []
      else plan_states rnd attrs (boosted_attributes attrs bonus) bonus cs
             (initial_state booster_hours skills0) skills)"
  by (cases booster_hours)
     (simp_all add: plan_run_def plan_heading_def format_time_def printable_def to_float_def
        inf_times_def)

lemmas eval_defs =
  plan_run_unfold initial_state_def boosted_attributes_def plan_body_def
  booster_step_def calculate_training_time_def fsub_def to_float_def calculate_sp_per_hour_def
  lookup_attr_def attr_map_def effective_intelligence_def effective_perception_def
  effective_charisma_def effective_willpower_def effective_memory_def
  sp_to_train_def total_sp_at_level_def sp_for_level_def py_int_def
  bind_format_time printable_def Let_def demo_attrs_def demo_skill_def

section \<open>The cost curve at the five levels\<close>

text \<open>
  A rank 9 skill needs these SP per level, and 2798270 SP from level 0 to level 5.
\<close>

lemma SQRT32_bounds: "5.65685 < SQRT32" "SQRT32 < 5.65686"
proof -
  have "(5.65685::real) = sqrt (5.65685\<^sup>2)" by simp
  also have "\<dots> < sqrt 32" by (intro real_sqrt_less_mono) (simp add: power2_eq_square)
  finally show "5.65685 < SQRT32" by (simp add: SQRT32_def)
  have "sqrt 32 < sqrt ((5.65686::real)\<^sup>2)"
    by (intro real_sqrt_less_mono) (simp add: power2_eq_square)
  also have "\<dots> = 5.65686" by simp
  finally show "SQRT32 < 5.65686" by (simp add: SQRT32_def)
qed

lemma SQRT32_square: "SQRT32 * SQRT32 = 32"
  by (simp add: SQRT32_def)

lemma py_int_between: "real_of_int n \<le> x \<Longrightarrow> x < real_of_int n + 1 \<Longrightarrow> 0 \<le> n \<Longrightarrow> py_int x = n"
  by (simp add: py_int_def floor_unique)

lemma sp_for_level_gunnery:
  "map (sp_for_level demo_skill) [1, 2, 3, 4, 5] = [2250, 12727, 72000, 407293, 2304000]"
proof -
  have p2: "SQRT32 ^ 2 = 32" by (simp add: power2_eq_square SQRT32_square)
  have p3: "SQRT32 ^ 3 = 32 * SQRT32" by (simp add: power3_eq_cube SQRT32_square)
  have p4: "SQRT32 ^ 4 = 1024"
    using p2 by (simp add: power4_eq_xxxx SQRT32_square)
  have l2: "py_int (250 * 9 * SQRT32) = 12727"
    using SQRT32_bounds by (intro py_int_between) simp_all
  have l4: "py_int (250 * 9 * (32 * SQRT32)) = 407293"
    using SQRT32_bounds by (intro py_int_between) simp_all
  show ?thesis
    using l2 l4 by (simp add: sp_for_level_def demo_skill_def p2 p3 p4 py_int_def)
qed

lemma sp_to_train_gunnery: "sp_to_train demo_skill 5 = 2798270"
proof -
  from sp_for_level_gunnery have
    "sp_for_level demo_skill 1 = 2250" "sp_for_level demo_skill 2 = 12727"
    "sp_for_level demo_skill 3 = 72000" "sp_for_level demo_skill 4 = 407293"
    "sp_for_level demo_skill 5 = 2304000"
    by simp_all
  moreover have "current_level demo_skill = 0" "current_sp demo_skill = 0"
    by (simp_all add: demo_skill_def)
  moreover have "[1..5::int] = [1, 2, 3, 4, 5]"
    by code_simp
  ultimately show ?thesis
    by (simp add: sp_to_train_def total_sp_at_level_def)
qed

section \<open>Loop invariants and the three ways through the loop body\<close>

lemma plan_states_invariant:
  assumes "P st"
    and "\<And>s item s'. P s \<Longrightarrow> plan_body rnd attrs battrs bonus cs s item = Inr s' \<Longrightarrow> P s'"
  shows "\<forall>s \<in> set (plan_states rnd attrs battrs bonus cs st items). P s"
  using assms(1)
proof (induction items arbitrary: st)
  case Nil
  then show ?case by simp
next
  case (Cons item items)
  show ?case
  proof (cases "plan_body rnd attrs battrs bonus cs st item")
    case (Inl e)
    then show ?thesis by simp
  next
    case (Inr st')
    from assms(2) [OF Cons.prems Inr] have "P st'" .
    with Cons.IH [of st'] Inr show ?thesis by simp
  qed
qed

lemma plan_loop_invariant:
  assumes "plan_loop rnd attrs battrs bonus cs st items = Inr st'" and "P st"
    and "\<And>s item s'. P s \<Longrightarrow> plan_body rnd attrs battrs bonus cs s item = Inr s' \<Longrightarrow> P s'"
  shows "P st'"
  using assms(1,2)
proof (induction items arbitrary: st)
  case Nil
  then show ?case by simp
next
  case (Cons item items)
  from Cons.prems(1) obtain s where s: "plan_body rnd attrs battrs bonus cs st item = Inr s"
    and l: "plan_loop rnd attrs battrs bonus cs s items = Inr st'"
    by (auto simp: bind_err_Inr_iff)
  from assms(3) [OF Cons.prems(2) s] have "P s" .
  from Cons.IH [OF l this] show ?case .
qed

lemma step_no_strength:
  "booster_step rnd 0 R q b rb =
     \<lparr>out_time_base = calculate_training_time rnd (PyInt q) b,
      out_time_actual = calculate_training_time rnd (PyInt q) b,
      out_time_saved = Fin 0, out_booster_remaining = R\<rparr>"
  by (simp add: booster_step_def Let_def)

lemma step_split:
  assumes "0 < bonus" "flt (Fin 0) R" "flt (fmul rnd R (to_float rnd rb)) (fl q)"
  shows "booster_step rnd bonus R q b rb =
     \<lparr>out_time_base = calculate_training_time rnd (PyInt q) b,
      out_time_actual = fadd rnd R (calculate_training_time rnd
         (PyFloat (fsub rnd (to_float rnd q) (fmul rnd R (to_float rnd rb)))) b),
      out_time_saved = fsub rnd (calculate_training_time rnd (PyInt q) b)
         (fadd rnd R (calculate_training_time rnd
            (PyFloat (fsub rnd (to_float rnd q) (fmul rnd R (to_float rnd rb)))) b)),
      out_booster_remaining = Fin 0\<rparr>"
  using assms flt_not_fle [OF assms(3)] by (simp add: booster_step_def Let_def)

lemma step_full:
  assumes "0 < bonus" "flt (Fin 0) R" "fle (fl q) (fmul rnd R (to_float rnd rb))"
  shows "booster_step rnd bonus R q b rb =
     \<lparr>out_time_base = calculate_training_time rnd (PyInt q) b,
      out_time_actual = calculate_training_time rnd (PyInt q) rb,
      out_time_saved = fsub rnd (calculate_training_time rnd (PyInt q) b)
         (calculate_training_time rnd (PyInt q) rb),
      out_booster_remaining = fsub rnd R (calculate_training_time rnd (PyInt q) rb)\<rparr>"
  using assms by (simp add: booster_step_def Let_def)

lemma step_idle:
  assumes "\<not> (0 < bonus \<and> flt (Fin 0) R)"
  shows "booster_step rnd bonus R q b rb =
     \<lparr>out_time_base = calculate_training_time rnd (PyInt q) b,
      out_time_actual = calculate_training_time rnd (PyInt q) b,
      out_time_saved = Fin 0, out_booster_remaining = R\<rparr>"
  using assms by (auto simp: booster_step_def Let_def)

lemma plan_body_idle:
  assumes "plan_body rnd attrs battrs bonus cs st item = Inr st'"
    and "\<not> flt (Fin 0) (booster_remaining st)"
  shows "booster_remaining st' = booster_remaining st"
proof -
  from assms(1) obtain b rb where
    "st' = finish_item rnd st item (booster_step rnd bonus (booster_remaining st)
        (sp_to_train (store st (fst item)) (snd item)) b rb)"
    by (rule plan_body_Inr)
  then show ?thesis
    using assms(2) by (simp add: step_idle finish_item_def)
qed

lemma plan_states_idle:
  assumes "\<not> flt (Fin 0) (booster_remaining st)"
  shows "\<forall>s \<in> set (plan_states rnd attrs battrs bonus cs st items).
           booster_remaining s = booster_remaining st"
proof -
  define R where "R = booster_remaining st"
  have step: "booster_remaining s' = R"
    if "booster_remaining s = R" "plan_body rnd attrs battrs bonus cs s item = Inr s'" for s item s'
    using plan_body_idle [OF that(2)] that(1) assms by (simp add: R_def)
  have "\<forall>s \<in> set (plan_states rnd attrs battrs bonus cs st items).
      (\<lambda>s::plan_state. booster_remaining s = R) s"
    by (rule plan_states_invariant) (simp_all add: R_def [symmetric] step)
  then show ?thesis by (simp add: R_def)
qed

lemma plan_states_exhausted:
  assumes "booster_remaining st = Fin 0"
  shows "\<forall>s \<in> set (plan_states rnd attrs battrs bonus cs st items). booster_remaining s = Fin 0"
  using plan_states_idle [of st rnd attrs battrs bonus cs items] assms by simp

lemma plan_body_succeeds:
  assumes "calculate_sp_per_hour attrs (store st (fst item)) cs = Inr b"
    and "calculate_sp_per_hour battrs (store st (fst item)) cs = Inr rb"
    and "printable (out_time_base (booster_step rnd bonus (booster_remaining st)
        (sp_to_train (store st (fst item)) (snd item)) b rb))"
    and "printable (out_time_actual (booster_step rnd bonus (booster_remaining st)
        (sp_to_train (store st (fst item)) (snd item)) b rb))"
    and "printable (out_time_saved (booster_step rnd bonus (booster_remaining st)
        (sp_to_train (store st (fst item)) (snd item)) b rb))"
  shows "plan_body rnd attrs battrs bonus cs st item = Inr (finish_item rnd st item
      (booster_step rnd bonus (booster_remaining st) (sp_to_train (store st (fst item)) (snd item)) b rb))"
  using assms by (simp add: plan_body_unfold Let_def)

lemma last_row_finish [simp]:
  "last (rows (finish_item rnd st item out)) =
     \<lparr>row_name = name (store st (fst item)), row_from_level = current_level (store st (fst item)),
      row_target_level = snd item, row_sp_needed = sp_to_train (store st (fst item)) (snd item),
      row_time_base = out_time_base out, row_time_actual = out_time_actual out,
      row_time_saved = out_time_saved out\<rparr>"
  by (simp add: finish_item_def)

lemma remaining_finish [simp]:
  "booster_remaining (finish_item rnd st item out) = out_booster_remaining out"
  by (simp add: finish_item_def)

lemmas demo_defs = trained_skill_def zero_attrs_def negative_attrs_def

lemma plan_body_Inr_rates:
  assumes "plan_body rnd attrs battrs bonus cs st (r, t) = Inr st'"
    and "calculate_sp_per_hour attrs (store st r) cs = Inr b"
    and "calculate_sp_per_hour battrs (store st r) cs = Inr rb"
  shows "st' = finish_item rnd st (r, t)
           (booster_step rnd bonus (booster_remaining st) (sp_to_train (store st r) t) b rb)"
    and "printable (out_time_base
           (booster_step rnd bonus (booster_remaining st) (sp_to_train (store st r) t) b rb))"
    and "printable (out_time_actual
           (booster_step rnd bonus (booster_remaining st) (sp_to_train (store st r) t) b rb))"
    and "printable (out_time_saved
           (booster_step rnd bonus (booster_remaining st) (sp_to_train (store st r) t) b rb))"
  using assms by (auto simp: plan_body_unfold Let_def split: if_splits)

section \<open>Booster depletion (C3)\<close>

lemma step_remaining_le:
  assumes r: "rounding rnd" and q: "0 \<le> q" and rep: "representable rnd R" and nn: "R \<noteq> NaN"
    and p: "printable (out_time_saved (booster_step rnd bonus R q b rb))"
  shows "fle (out_booster_remaining (booster_step rnd bonus R q b rb)) R \<and>
         representable rnd (out_booster_remaining (booster_step rnd bonus R q b rb)) \<and>
         out_booster_remaining (booster_step rnd bonus R q b rb) \<noteq> NaN"
proof (cases "0 < bonus \<and> flt (Fin 0) R")
  case False
  then show ?thesis
    using rep nn by (simp add: step_idle fle_refl_iff)
next
  case active: True
  show ?thesis
  proof (cases "fle (fl q) (fmul rnd R (to_float rnd rb))")
    case False
    with active have "out_booster_remaining (booster_step rnd bonus R q b rb) = Fin 0"
      by (simp add: booster_step_def Let_def)
    with active r show ?thesis
      by (simp add: flt_imp_fle representable_def rounding_zero)
  next
    case True
    note full = step_full [of bonus R q rnd rb b]
    have full': "booster_step rnd bonus R q b rb =
     \<lparr>out_time_base = calculate_training_time rnd (PyInt q) b,
      out_time_actual = calculate_training_time rnd (PyInt q) rb,
      out_time_saved = fsub rnd (calculate_training_time rnd (PyInt q) b)
         (calculate_training_time rnd (PyInt q) rb),
      out_booster_remaining = fsub rnd R (calculate_training_time rnd (PyInt q) rb)\<rparr>"
      using active True by (intro full) simp_all
    have rbpos: "0 < rb"
    proof (rule ccontr)
      assume "\<not> 0 < rb"
      then have "\<not> printable (out_time_saved (booster_step rnd bonus R q b rb))"
        by (cases "b \<le> 0") (simp_all add: full' calculate_training_time_def fsub_def printable_def)
      with p show False by blast
    qed
    define a where "a = rnd (real_of_int q / real_of_int rb)"
    have a: "calculate_training_time rnd (PyInt q) rb = Fin a"
      using rbpos by (simp add: calculate_training_time_def a_def)
    have "0 \<le> real_of_int q / real_of_int rb"
      using q rbpos by simp
    then have a0: "0 \<le> a"
      unfolding a_def by (rule rounding_nonneg [OF r])
    show ?thesis
    proof (cases R)
      case (Fin x)
      have "rnd (x - a) \<le> rnd x"
        using a0 by (intro rounding_mono [OF r]) simp
      also have "rnd x = x"
        using rep by (simp add: Fin representable_def)
      finally have "rnd (x - a) \<le> x" .
      then show ?thesis
        by (simp add: full' [unfolded Fin] a Fin fsub_def representable_def rounding_idem [OF r])
    next
      case PInf
      then show ?thesis
        by (simp add: full' [unfolded PInf] a fsub_def representable_def)
    next
      case NInf
      with active show ?thesis by simp
    next
      case NaN
      with nn show ?thesis by simp
    qed
  qed
qed

lemma step_remaining_exact:
  assumes "0 \<le> q" and "fle (Fin 0) R"
    and "printable (out_time_saved (booster_step exact bonus R q b rb))"
  shows "fle (Fin 0) (out_booster_remaining (booster_step exact bonus R q b rb))"
  using assms
  by (cases R)
     (auto simp: booster_step_def calculate_training_time_def fsub_def printable_def Let_def
        to_float_def exact_def inf_times_def pos_divide_le_eq mult.commute split: if_splits)

lemma plan_body_remaining_le:
  assumes "rounding rnd" and "plan_body rnd attrs battrs bonus cs st item = Inr st'"
    and "representable rnd (booster_remaining st)" and "booster_remaining st \<noteq> NaN"
  shows "fle (booster_remaining st') (booster_remaining st) \<and>
         representable rnd (booster_remaining st') \<and> booster_remaining st' \<noteq> NaN"
proof -
  from assms(2) obtain b rb where
    p: "printable (out_time_saved (booster_step rnd bonus (booster_remaining st)
        (sp_to_train (store st (fst item)) (snd item)) b rb))"
    and s: "st' = finish_item rnd st item (booster_step rnd bonus (booster_remaining st)
        (sp_to_train (store st (fst item)) (snd item)) b rb)"
    by (rule plan_body_Inr)
  from step_remaining_le [OF assms(1) sp_to_train_nonneg assms(3,4) p] s
  show ?thesis by simp
qed

lemma plan_body_remaining_exact:
  assumes "plan_body exact attrs battrs bonus cs st item = Inr st'"
    and "fle (Fin 0) (booster_remaining st)"
  shows "fle (Fin 0) (booster_remaining st')"
proof -
  from assms(1) obtain b rb where
    p: "printable (out_time_saved (booster_step exact bonus (booster_remaining st)
        (sp_to_train (store st (fst item)) (snd item)) b rb))"
    and s: "st' = finish_item exact st item (booster_step exact bonus (booster_remaining st)
        (sp_to_train (store st (fst item)) (snd item)) b rb)"
    by (rule plan_body_Inr)
  from step_remaining_exact [OF sp_to_train_nonneg assms(2) p] s
  show ?thesis by simp
qed

lemma plan_states_le:
  assumes "rounding rnd"
    and "representable rnd (booster_remaining st)" and "booster_remaining st \<noteq> NaN"
  shows "\<forall>s \<in> set (plan_states rnd attrs battrs bonus cs st items).
           fle (booster_remaining s) (booster_remaining st)"
  using assms(2,3)
proof (induction items arbitrary: st)
  case Nil
  then show ?case by simp
next
  case (Cons item items)
  show ?case
  proof (cases "plan_body rnd attrs battrs bonus cs st item")
    case (Inl e)
    then show ?thesis by simp
  next
    case (Inr st')
    from plan_body_remaining_le [OF assms(1) Inr Cons.prems]
    have le: "fle (booster_remaining st') (booster_remaining st)"
      and ok: "representable rnd (booster_remaining st')" "booster_remaining st' \<noteq> NaN"
      by simp_all
    from Cons.IH [OF ok] le Inr show ?thesis
      by (auto intro: fle_trans)
  qed
qed

lemma plan_states_sorted:
  assumes "rounding rnd"
    and "representable rnd (booster_remaining st)" and "booster_remaining st \<noteq> NaN"
  shows "sorted_wrt (\<lambda>a b. fle b a)
           (booster_remaining st # map booster_remaining (plan_states rnd attrs battrs bonus cs st items))"
  using assms(2,3)
proof (induction items arbitrary: st)
  case Nil
  then show ?case by simp
next
  case (Cons item items)
  show ?case
  proof (cases "plan_body rnd attrs battrs bonus cs st item")
    case (Inl e)
    then show ?thesis by simp
  next
    case (Inr st')
    from plan_body_remaining_le [OF assms(1) Inr Cons.prems]
    have ok: "representable rnd (booster_remaining st')" "booster_remaining st' \<noteq> NaN"
      by simp_all
    from plan_states_le [OF assms(1) Cons.prems, of attrs battrs bonus cs "item # items"]
    have "\<forall>s \<in> set (plan_states rnd attrs battrs bonus cs st (item # items)).
            fle (booster_remaining s) (booster_remaining st)" .
    with Cons.IH [OF ok] Inr show ?thesis by simp
  qed
qed

lemma plan_states_stay:
  "sorted_wrt (\<lambda>a b. fle a (Fin 0) \<longrightarrow> b = a)
     (booster_remaining st # map booster_remaining (plan_states rnd attrs battrs bonus cs st items))"
proof (induction items arbitrary: st)
  case Nil
  then show ?case by simp
next
  case (Cons item items)
  show ?case
  proof (cases "plan_body rnd attrs battrs bonus cs st item")
    case (Inl e)
    then show ?thesis by simp
  next
    case (Inr st')
    define rest where "rest = plan_states rnd attrs battrs bonus cs st' items"
    from Inr have ps: "plan_states rnd attrs battrs bonus cs st (item # items) = st' # rest"
      by (simp add: rest_def)
    have same: "booster_remaining s = booster_remaining st"
      if "fle (booster_remaining st) (Fin 0)" and "s \<in> set (st' # rest)" for s
    proof -
      from that(1) have "\<not> flt (Fin 0) (booster_remaining st)"
        using flt_not_fle by blast
      from plan_states_idle [OF this, of rnd attrs battrs bonus cs "item # items"] that(2)
      show ?thesis unfolding ps by blast
    qed
    have head: "\<forall>y \<in> set (map booster_remaining (st' # rest)).
        fle (booster_remaining st) (Fin 0) \<longrightarrow> y = booster_remaining st"
    proof (intro ballI impI)
      fix y assume "y \<in> set (map booster_remaining (st' # rest))"
        and le: "fle (booster_remaining st) (Fin 0)"
      then obtain s where "s \<in> set (st' # rest)" "y = booster_remaining s"
        by auto
      with same [OF le] show "y = booster_remaining st" by blast
    qed
    have tail: "sorted_wrt (\<lambda>a b. fle a (Fin 0) \<longrightarrow> b = a) (map booster_remaining (st' # rest))"
      using Cons.IH [of st'] by (simp only: rest_def list.map)
    show ?thesis
      unfolding ps by (rule iffD2 [OF sorted_wrt.simps(2)]) (intro conjI head tail)
  qed
qed

lemma plan_states_nonneg_exact:
  assumes "fle (Fin 0) (booster_remaining st)"
  shows "\<forall>s \<in> set (plan_states exact attrs battrs bonus cs st items). fle (Fin 0) (booster_remaining s)"
proof -
  have "\<forall>s \<in> set (plan_states exact attrs battrs bonus cs st items).
      (\<lambda>s::plan_state. fle (Fin 0) (booster_remaining s)) s"
    using assms by (rule plan_states_invariant) (rule plan_body_remaining_exact)
  then show ?thesis by simp
qed

text \<open>
  The values of \<open>binary64\<close> in the run of the plan of two skills with a booster of
  strength 1 and 5 hours: thirds of an hour are not floats.
\<close>

lemma binary64_thirds:
  "binary64 (10 / 3) = 7505999378950827 / 2251799813685248"
  "binary64 (3752999689475413 / 2251799813685248) = 3752999689475413 / 2251799813685248"
  "binary64 (25 / 6) = 4691249611844267 / 1125899906842624"
  "binary64 (1876499844737707 / 2251799813685248) = 1876499844737707 / 2251799813685248"
  "binary64 (2533274790395903775 / 1125899906842624) = 2250"
  "binary64 (5 / 3) = 7505999378950827 / 4503599627370496"
  "binary64 (- (1 / 4503599627370496)) = - (1 / 4503599627370496)"
  "binary64 (25 / 14) = 8042142191733029 / 4503599627370496"
  "binary64 (268071406391101 / 2251799813685248) = 268071406391101 / 2251799813685248"
proof -
  show "binary64 (10 / 3) = 7505999378950827 / 2251799813685248"
    by (subst binary64_eval [where n = 51]) (simp_all add: round_half_even_def)
  show "binary64 (3752999689475413 / 2251799813685248) = 3752999689475413 / 2251799813685248"
    by (subst binary64_eval [where n = 52]) (simp_all add: round_half_even_def)
  show "binary64 (25 / 6) = 4691249611844267 / 1125899906842624"
    by (subst binary64_eval [where n = 50]) (simp_all add: round_half_even_def)
  show "binary64 (1876499844737707 / 2251799813685248) = 1876499844737707 / 2251799813685248"
    by (subst binary64_eval [where n = 53]) (simp_all add: round_half_even_def)
  show "binary64 (2533274790395903775 / 1125899906842624) = 2250"
    by (subst binary64_eval [where n = 41]) (simp_all add: round_half_even_def)
  show "binary64 (5 / 3) = 7505999378950827 / 4503599627370496"
    by (subst binary64_eval [where n = 52]) (simp_all add: round_half_even_def)
  have "binary64 (1 / 4503599627370496) = 1 / 4503599627370496"
    by (subst binary64_eval [where n = 104]) (simp_all add: round_half_even_def)
  then show "binary64 (- (1 / 4503599627370496)) = - (1 / 4503599627370496)"
    by (simp add: binary64_minus)
  show "binary64 (25 / 14) = 8042142191733029 / 4503599627370496"
    by (subst binary64_eval [where n = 52]) (simp_all add: round_half_even_def)
  show "binary64 (268071406391101 / 2251799813685248) = 268071406391101 / 2251799813685248"
    by (subst binary64_eval [where n = 56]) (simp_all add: round_half_even_def)
qed

lemma thirds_rates:
  "calculate_sp_per_hour thirds_attrs (thirds_store 0) OMEGA = Inr 360"
  "calculate_sp_per_hour (boosted_attributes thirds_attrs 1) (thirds_store 0) OMEGA = Inr 450"
  "calculate_sp_per_hour thirds_attrs (thirds_store 1) OMEGA = Inr 1260"
  "calculate_sp_per_hour (boosted_attributes thirds_attrs 1) (thirds_store 1) OMEGA = Inr 1350"
  "sp_to_train (thirds_store 0) 1 = 1500"
  "sp_to_train (thirds_store 1) 1 = 2250"
  "name (thirds_store r) = (if r = 0 then ''Navigation'' else ''Science'')"
  "current_level (thirds_store r) = 0"
  by (simp_all add: eval_defs thirds_attrs_def thirds_store_def)

text \<open>
  Claim C3 as stated fails in the program. With a booster of strength 1 and 5 hours the
  first skill takes 1500 / 450 hours, which rounds up to \<open>3.3333333333333335\<close>, and
  leaves \<open>1.6666666666666665\<close> hours. These cover exactly the 2250 SP of the second
  skill after rounding, so it is trained in full under the booster in 2250 / 1350
  hours, which round up to \<open>1.6666666666666667\<close>: the booster is left with
  \<open>-2.220446049250313e-16\<close> hours, below zero.
\<close>

theorem booster_depletion_counterexample:
  "fle (Fin 0) (Fin 5) \<and> representable binary64 (Fin 5) \<and>
   map booster_remaining (plan_run binary64 thirds_attrs thirds_store [(0, 1), (1, 1)] 1 (Fin 5) OMEGA)
     = [Fin (3752999689475413 / 2251799813685248), Fin (- (1 / 4503599627370496))] \<and>
   flt (Fin (- (1 / 4503599627370496))) (Fin 0)"
proof -
  have one: "Suc 0 = 1" by simp
  have run: "map booster_remaining
      (plan_run binary64 thirds_attrs thirds_store [(0, 1), (1, 1)] 1 (Fin 5) OMEGA)
     = [Fin (3752999689475413 / 2251799813685248), Fin (- (1 / 4503599627370496))]"
    by (simp add: plan_run_unfold plan_body_unfold initial_state_def finish_item_def
        booster_step_def calculate_training_time_def fsub_def to_float_def printable_def
        binary64_thirds Let_def one thirds_rates del: One_nat_def)
  then show ?thesis
    by (simp add: representable_def)
qed

text \<open>
  Claim C3, amended. The booster duration handed to \<open>validate_plan\<close> is a float that is
  not negative. The booster hours left, read after each item the scheduler finishes,
  form a sequence that never increases, and once a value is zero or below every later
  value is that same value: the booster never has hours again. A value can lie below
  zero by a rounding error, as above; in exact arithmetic no value is negative. An item
  whose line cannot be printed ends the run, so no value is read after it.
\<close>

theorem booster_depletion:
  assumes "rounding rnd" and "representable rnd booster_hours" and "fle (Fin 0) booster_hours"
  shows "(let bs = booster_hours #
                   map booster_remaining (plan_run rnd attrs skills0 skills bonus booster_hours cs) in
          sorted_wrt (\<lambda>a b. fle b a) bs \<and>
          (\<forall>i j. i < j \<longrightarrow> j < length bs \<longrightarrow> fle (bs ! i) (Fin 0) \<longrightarrow> bs ! j = bs ! i)) \<and>
         (let bs = booster_hours #
                   map booster_remaining (plan_run exact attrs skills0 skills bonus booster_hours cs) in
          \<forall>b \<in> set bs. fle (Fin 0) b)"
proof -
  define st0 where "st0 = initial_state booster_hours skills0"
  define bs where "bs = booster_remaining st0 #
     map booster_remaining (plan_states rnd attrs (boosted_attributes attrs bonus) bonus cs st0 skills)"
  have h0: "booster_remaining st0 = booster_hours"
    by (simp add: st0_def initial_state_def)
  have nn0: "fle (Fin 0) (booster_remaining st0)"
    using assms(3) h0 by simp
  have rep0: "representable rnd (booster_remaining st0)"
    using assms(2) h0 by simp
  have nan0: "booster_remaining st0 \<noteq> NaN"
    using nn0 by (cases "booster_remaining st0") simp_all
  have pr: "printable booster_hours"
    using assms(3) by (cases booster_hours) (simp_all add: printable_def)
  then have run: "plan_run rnd attrs skills0 skills bonus booster_hours cs =
      plan_states rnd attrs (boosted_attributes attrs bonus) bonus cs st0 skills"
    by (simp add: plan_run_unfold st0_def)
  from pr have run_exact: "plan_run exact attrs skills0 skills bonus booster_hours cs =
      plan_states exact attrs (boosted_attributes attrs bonus) bonus cs st0 skills"
    by (simp add: plan_run_unfold st0_def)
  have sorted: "sorted_wrt (\<lambda>a b. fle b a) bs"
    unfolding bs_def by (rule plan_states_sorted [OF assms(1) rep0 nan0])
  have "sorted_wrt (\<lambda>a b. fle a (Fin 0) \<longrightarrow> b = a) bs"
    unfolding bs_def by (rule plan_states_stay)
  then have stays: "bs ! j = bs ! i" if "i < j" "j < length bs" "fle (bs ! i) (Fin 0)" for i j
    using that by (simp add: sorted_wrt_iff_nth_less)
  have eq: "booster_hours # map booster_remaining (plan_run rnd attrs skills0 skills bonus booster_hours cs) = bs"
    by (simp add: bs_def run h0)
  have nonneg: "\<forall>b \<in> set (booster_hours #
      map booster_remaining (plan_run exact attrs skills0 skills bonus booster_hours cs)). fle (Fin 0) b"
    unfolding run_exact
    using plan_states_nonneg_exact [OF nn0, of attrs "boosted_attributes attrs bonus" bonus cs skills]
      assms(3)
    by auto
  show ?thesis
    unfolding Let_def eq
  proof (intro conjI allI impI)
    show "sorted_wrt (\<lambda>a b. fle b a) bs" by (rule sorted)
    show "bs ! j = bs ! i" if "i < j" "j < length bs" "fle (bs ! i) (Fin 0)" for i j
      using that by (rule stays)
    show "\<forall>b \<in> set (booster_hours #
      map booster_remaining (plan_run exact attrs skills0 skills bonus booster_hours cs)). fle (Fin 0) b"
      by (rule nonneg)
  qed
qed

theorem booster_depletion_witness:
  "rounding binary64 \<and> representable binary64 (Fin 3) \<and> fle (Fin 0) (Fin 3) \<and>
   map booster_remaining (plan_run binary64 demo_attrs (\<lambda>_. demo_skill) [(0, 1), (1, 1), (2, 1)] 5 (Fin 3) OMEGA)
     = [Fin (1/2), Fin 0, Fin 0] \<and>
   map booster_remaining (plan_run exact demo_attrs (\<lambda>_. demo_skill) [(0, 1), (1, 1), (2, 1)] 5 (Fin 3) OMEGA)
     = [Fin (1/2), Fin 0, Fin 0] \<and>
   (let bs = [Fin 3, Fin (1/2), Fin 0, Fin 0] in
    sorted_wrt (\<lambda>a b. fle b a) bs \<and>
    (\<forall>i j. i < j \<longrightarrow> j < length bs \<longrightarrow> fle (bs ! i) (Fin 0) \<longrightarrow> bs ! j = bs ! i)) \<and>
   (let bs = [Fin 3, Fin (1/2), Fin 0, Fin 0] in \<forall>b \<in> set bs. fle (Fin 0) b)"
proof -
  have h1: "rounding binary64" by (rule rounding_binary64)
  have h2: "representable binary64 (Fin 3)" by (simp add: representable_def)
  have h3: "fle (Fin 0) (Fin 3)" by simp
  have run: "map booster_remaining
      (plan_run binary64 demo_attrs (\<lambda>_. demo_skill) [(0, 1), (1, 1), (2, 1)] 5 (Fin 3) OMEGA)
     = [Fin (1/2), Fin 0, Fin 0]"
    by (simp add: eval_defs)
  have run_exact: "map booster_remaining
      (plan_run exact demo_attrs (\<lambda>_. demo_skill) [(0, 1), (1, 1), (2, 1)] 5 (Fin 3) OMEGA)
     = [Fin (1/2), Fin 0, Fin 0]"
    by (simp add: eval_defs exact_def)
  from booster_depletion [OF h1 h2 h3, of demo_attrs "\<lambda>_. demo_skill" "[(0, 1), (1, 1), (2, 1)]" 5 OMEGA]
  have "(let bs = [Fin 3, Fin (1/2), Fin 0, Fin 0] in
    sorted_wrt (\<lambda>a b. fle b a) bs \<and>
    (\<forall>i j. i < j \<longrightarrow> j < length bs \<longrightarrow> fle (bs ! i) (Fin 0) \<longrightarrow> bs ! j = bs ! i)) \<and>
    (let bs = [Fin 3, Fin (1/2), Fin 0, Fin 0] in \<forall>b \<in> set bs. fle (Fin 0) b)"
    unfolding run run_exact .
  with h1 h2 h3 run run_exact show ?thesis by (intro conjI) simp_all
qed

section \<open>The split case (C1)\<close>

text \<open>
  Claim C1. When the booster is active (positive strength and hours left) and the SP it
  can still cover, hours left times boosted rate, is strictly less than the SP the item
  needs, the item is split: the actual time is the hours left plus the time of the
  remaining SP at the base rate, the booster has zero hours left after the item and for
  every later item of the plan. The item is processed whenever the base rate is positive
  and not above the boosted rate. With 10000 SP, rates 1000 and 2000 and 3 hours left the
  actual time is 7 hours and 3 hours are saved.
\<close>

theorem split_case:
  assumes "0 < bonus" and "flt (Fin 0) (booster_remaining st)"
    and "calculate_sp_per_hour attrs (store st r) cs = Inr b"
    and "calculate_sp_per_hour battrs (store st r) cs = Inr rb"
    and "flt (fmul rnd (booster_remaining st) (to_float rnd rb)) (fl (sp_to_train (store st r) t))"
  shows "(\<forall>st'. plan_body rnd attrs battrs bonus cs st (r, t) = Inr st' \<longrightarrow>
            row_time_actual (last (rows st')) =
              fadd rnd (booster_remaining st)
                (calculate_training_time rnd
                   (PyFloat (fsub rnd (to_float rnd (sp_to_train (store st r) t))
                                      (fmul rnd (booster_remaining st) (to_float rnd rb))))
                   b) \<and>
            booster_remaining st' = Fin 0 \<and>
            (\<forall>s \<in> set (plan_states rnd attrs battrs bonus cs st' items). booster_remaining s = Fin 0)) \<and>
         (rounding rnd \<and> 0 < b \<and> b \<le> rb \<longrightarrow>
            (\<exists>st'. plan_body rnd attrs battrs bonus cs st (r, t) = Inr st')) \<and>
         booster_step binary64 1 (Fin 3) 10000 1000 2000 =
           \<lparr>out_time_base = Fin 10, out_time_actual = Fin 7, out_time_saved = Fin 3,
            out_booster_remaining = Fin 0\<rparr>"
proof (intro conjI allI impI)
  fix st' assume body: "plan_body rnd attrs battrs bonus cs st (r, t) = Inr st'"
  from body obtain b' rb' where
    "calculate_sp_per_hour attrs (store st (fst (r, t))) cs = Inr b'"
    "calculate_sp_per_hour battrs (store st (fst (r, t))) cs = Inr rb'"
    and st': "st' = finish_item rnd st (r, t) (booster_step rnd bonus (booster_remaining st)
        (sp_to_train (store st (fst (r, t))) (snd (r, t))) b' rb')"
    by (rule plan_body_Inr)
  with assms(3,4) have "b' = b" "rb' = rb" by simp_all
  with st' have st'': "st' = finish_item rnd st (r, t) (booster_step rnd bonus (booster_remaining st)
        (sp_to_train (store st r) t) b rb)" by simp
  show "row_time_actual (last (rows st')) =
      fadd rnd (booster_remaining st)
        (calculate_training_time rnd
           (PyFloat (fsub rnd (to_float rnd (sp_to_train (store st r) t))
                              (fmul rnd (booster_remaining st) (to_float rnd rb)))) b)"
    by (simp add: st'' step_split [OF assms(1,2,5)])
  show z: "booster_remaining st' = Fin 0"
    by (simp add: st'' step_split [OF assms(1,2,5)])
  show "\<forall>s \<in> set (plan_states rnd attrs battrs bonus cs st' items). booster_remaining s = Fin 0"
    using z by (rule plan_states_exhausted)
next
  assume pos: "rounding rnd \<and> 0 < b \<and> b \<le> rb"
  then have r: "rounding rnd" and bpos: "0 < b" and rbpos: "0 < rb" by simp_all
  from rounding_rate [OF r rbpos] have rrb: "0 < rnd (real_of_int rb)" by simp
  from assms(2,5) rrb obtain x where R: "booster_remaining st = Fin x"
    by (cases "booster_remaining st") (auto simp: inf_times_def to_float_def)
  have "plan_body rnd attrs battrs bonus cs st (r, t) = Inr (finish_item rnd st (r, t)
      (booster_step rnd bonus (booster_remaining st) (sp_to_train (store st (fst (r, t))) (snd (r, t))) b rb))"
    using assms bpos
    by (intro plan_body_succeeds)
       (simp_all add: booster_step_def Let_def R calculate_training_time_def fsub_def printable_def
          to_float_def)
  then show "\<exists>st'. plan_body rnd attrs battrs bonus cs st (r, t) = Inr st'" by blast
next
  show "booster_step binary64 1 (Fin 3) 10000 1000 2000 =
      \<lparr>out_time_base = Fin 10, out_time_actual = Fin 7, out_time_saved = Fin 3,
       out_booster_remaining = Fin 0\<rparr>"
    by (simp add: booster_step_def calculate_training_time_def fsub_def to_float_def)
qed

theorem split_case_witness:
  "(0::int) < 5 \<and> flt (Fin 0) (booster_remaining (initial_state (Fin 1) (\<lambda>_. demo_skill))) \<and>
   calculate_sp_per_hour demo_attrs demo_skill OMEGA = Inr 450 \<and>
   calculate_sp_per_hour (boosted_attributes demo_attrs 5) demo_skill OMEGA = Inr 900 \<and>
   flt (fmul binary64 (Fin 1) (to_float binary64 900)) (fl (sp_to_train demo_skill 1)) \<and>
   rounding binary64 \<and>
   (\<exists>st'. plan_body binary64 demo_attrs (boosted_attributes demo_attrs 5) 5 OMEGA
            (initial_state (Fin 1) (\<lambda>_. demo_skill)) (0, 1) = Inr st' \<and>
          row_time_actual (last (rows st')) = Fin 4 \<and>
          booster_remaining st' = Fin 0 \<and>
          (\<forall>s \<in> set (plan_states binary64 demo_attrs (boosted_attributes demo_attrs 5) 5 OMEGA st' [(1, 1)]).
             booster_remaining s = Fin 0))"
proof -
  define st where "st = initial_state (Fin 1) (\<lambda>_. demo_skill)"
  have st_R: "booster_remaining st = Fin 1" and st_s: "store st 0 = demo_skill"
    by (simp_all add: st_def initial_state_def)
  have h1: "(0::int) < 5" by simp
  have h2: "flt (Fin 0) (booster_remaining st)" by (simp add: st_R)
  have r1: "calculate_sp_per_hour demo_attrs (store st 0) OMEGA = Inr 450"
    by (simp add: st_s eval_defs)
  have r2: "calculate_sp_per_hour (boosted_attributes demo_attrs 5) (store st 0) OMEGA = Inr 900"
    by (simp add: st_s eval_defs)
  have q: "sp_to_train demo_skill 1 = 2250"
    by (simp add: eval_defs)
  have h5: "flt (fmul binary64 (booster_remaining st) (to_float binary64 900)) (fl (sp_to_train (store st 0) 1))"
    by (simp add: st_R st_s q to_float_def)
  have h6: "rounding binary64" by (rule rounding_binary64)
  note sc = split_case [OF h1 h2 r1 r2 h5, of "[(1, 1)]"]
  from sc h6 have "\<exists>st'. plan_body binary64 demo_attrs (boosted_attributes demo_attrs 5) 5 OMEGA st (0, 1) = Inr st'"
    by simp
  then obtain st' where
    body: "plan_body binary64 demo_attrs (boosted_attributes demo_attrs 5) 5 OMEGA st (0, 1) = Inr st'" ..
  from sc body have
    a: "row_time_actual (last (rows st')) =
          fadd binary64 (booster_remaining st)
            (calculate_training_time binary64
               (PyFloat (fsub binary64 (to_float binary64 (sp_to_train (store st 0) 1))
                                       (fmul binary64 (booster_remaining st) (to_float binary64 900))))
               450)"
    and z: "booster_remaining st' = Fin 0"
    and rest: "\<forall>s \<in> set (plan_states binary64 demo_attrs (boosted_attributes demo_attrs 5) 5 OMEGA st' [(1, 1)]).
             booster_remaining s = Fin 0"
    by blast+
  from a have a': "row_time_actual (last (rows st')) = Fin 4"
    by (simp add: st_R st_s q calculate_training_time_def fsub_def to_float_def)
  from body a' z rest have
    "\<exists>st'. plan_body binary64 demo_attrs (boosted_attributes demo_attrs 5) 5 OMEGA st (0, 1) = Inr st' \<and>
          row_time_actual (last (rows st')) = Fin 4 \<and>
          booster_remaining st' = Fin 0 \<and>
          (\<forall>s \<in> set (plan_states binary64 demo_attrs (boosted_attributes demo_attrs 5) 5 OMEGA st' [(1, 1)]).
             booster_remaining s = Fin 0)"
    by blast
  moreover have "flt (fmul binary64 (Fin 1) (to_float binary64 900)) (fl (sp_to_train demo_skill 1))"
    by (simp add: q to_float_def)
  moreover note h1 h2 r1 r2 h6
  ultimately show ?thesis
    unfolding st_s unfolding st_def by (intro conjI)
qed

section \<open>Boosted rate and time saved (C4)\<close>








section \<open>Booster strength zero (C10)\<close>

text \<open>
  Claim C10. With booster strength 0 the booster branch is never taken, whatever the
  booster duration: after every item the hours left are the initial ones, and every
  line has an actual time equal to the base time and zero time saved.
\<close>

theorem strength_zero_frame:
  "\<forall>st \<in> set (plan_run rnd attrs skills0 skills 0 booster_hours cs).
     booster_remaining st = booster_hours \<and>
     (\<forall>r \<in> set (rows st). row_time_actual r = row_time_base r \<and> row_time_saved r = Fin 0)"
proof -
  define P where "P = (\<lambda>st::plan_state. booster_remaining st = booster_hours \<and>
     (\<forall>r \<in> set (rows st). row_time_actual r = row_time_base r \<and> row_time_saved r = Fin 0))"
  have step: "P st'" if "P st"
    and body: "plan_body rnd attrs (boosted_attributes attrs 0) 0 cs st item = Inr st'" for st item st'
  proof -
    from body obtain b rb where
      "st' = finish_item rnd st item (booster_step rnd 0 (booster_remaining st)
          (sp_to_train (store st (fst item)) (snd item)) b rb)"
      by (rule plan_body_Inr)
    with \<open>P st\<close> show ?thesis
      by (simp add: step_no_strength finish_item_def P_def)
  qed
  have init: "P (initial_state booster_hours skills0)"
    by (simp add: P_def initial_state_def)
  have inv: "\<forall>s \<in> set (plan_states rnd attrs (boosted_attributes attrs 0) 0 cs
      (initial_state booster_hours skills0) skills). P s"
    using init step by (rule plan_states_invariant)
  have run: "plan_run rnd attrs skills0 skills 0 booster_hours cs =
      plan_states rnd attrs (boosted_attributes attrs 0) 0 cs (initial_state booster_hours skills0) skills"
    by (simp add: plan_run_unfold)
  show ?thesis
    unfolding run using inv unfolding P_def .
qed

theorem strength_zero_frame_witness:
  "map booster_remaining (plan_run binary64 demo_attrs (\<lambda>_. demo_skill) [(0, 1), (1, 1)] 0 (Fin 3) OMEGA)
     = [Fin 3, Fin 3] \<and>
   map row_time_base
     (rows (last (plan_run binary64 demo_attrs (\<lambda>_. demo_skill) [(0, 1), (1, 1)] 0 (Fin 3) OMEGA)))
     = [Fin 5, Fin 5] \<and>
   booster_remaining (last (plan_run binary64 demo_attrs (\<lambda>_. demo_skill) [(0, 1), (1, 1)] 0 (Fin 3) OMEGA))
     = Fin 3 \<and>
   row_time_actual
     (last (rows (last (plan_run binary64 demo_attrs (\<lambda>_. demo_skill) [(0, 1), (1, 1)] 0 (Fin 3) OMEGA))))
     = Fin 5 \<and>
   row_time_saved
     (last (rows (last (plan_run binary64 demo_attrs (\<lambda>_. demo_skill) [(0, 1), (1, 1)] 0 (Fin 3) OMEGA))))
     = Fin 0"
proof -
  define run where "run = plan_run binary64 demo_attrs (\<lambda>_. demo_skill) [(0, 1), (1, 1)] 0 (Fin 3) OMEGA"
  have hours: "map booster_remaining run = [Fin 3, Fin 3]"
    unfolding run_def by (simp add: eval_defs)
  have base: "map row_time_base (rows (last run)) = [Fin 5, Fin 5]"
    unfolding run_def by (simp add: eval_defs)
  from hours have "run \<noteq> []" by auto
  then have in_run: "last run \<in> set run"
    by (rule last_in_set)
  from base have ne: "rows (last run) \<noteq> []" by auto
  then have in_rows: "last (rows (last run)) \<in> set (rows (last run))"
    by (rule last_in_set)
  from base ne have last_base: "row_time_base (last (rows (last run))) = Fin 5"
    by (simp add: last_map [symmetric])
  from strength_zero_frame [of binary64 demo_attrs "\<lambda>_. demo_skill" "[(0, 1), (1, 1)]" "Fin 3" OMEGA]
  have "\<forall>st \<in> set run. booster_remaining st = Fin 3 \<and>
     (\<forall>r \<in> set (rows st). row_time_actual r = row_time_base r \<and> row_time_saved r = Fin 0)"
    unfolding run_def .
  with in_run in_rows have "booster_remaining (last run) = Fin 3"
    "row_time_actual (last (rows (last run))) = row_time_base (last (rows (last run)))"
    "row_time_saved (last (rows (last run))) = Fin 0"
    by blast+
  with last_base have "booster_remaining (last run) = Fin 3"
    "row_time_actual (last (rows (last run))) = Fin 5"
    "row_time_saved (last (rows (last run))) = Fin 0"
    by simp_all
  with hours base show ?thesis
    unfolding run_def by (intro conjI)
qed

section \<open>The exact boundary (C2)\<close>

text \<open>
  Claim C2 as stated fails in the program. In the run of the plan of two skills above
  the booster has \<open>1.6666666666666665\<close> hours left before the second skill. Times the
  boosted rate 1350 that is 2250 after rounding, exactly the SP the skill needs, and
  the full-coverage branch is taken. The time of 2250 SP at the rate 1350 rounds to
  \<open>1.6666666666666667\<close>, so the booster is left with \<open>-2.220446049250313e-16\<close> hours and
  not with 0.
\<close>

theorem exact_boundary_counterexample:
  "flt (Fin 0) (Fin (3752999689475413 / 2251799813685248)) \<and>
   calculate_sp_per_hour (boosted_attributes thirds_attrs 1) (thirds_store 1) OMEGA = Inr 1350 \<and>
   sp_to_train (thirds_store 1) 1 = 2250 \<and>
   fmul binary64 (Fin (3752999689475413 / 2251799813685248)) (to_float binary64 1350) = fl 2250 \<and>
   (\<exists>st'. plan_body binary64 thirds_attrs (boosted_attributes thirds_attrs 1) 1 OMEGA
            (initial_state (Fin (3752999689475413 / 2251799813685248)) thirds_store) (1, 1) = Inr st' \<and>
          row_time_actual (last (rows st')) = Fin (7505999378950827 / 4503599627370496) \<and>
          booster_remaining st' = Fin (- (1 / 4503599627370496))) \<and>
   Fin (- (1 / 4503599627370496)) \<noteq> Fin 0"
proof -
  have one: "Suc 0 = 1" by simp
  have w: "\<exists>st'. plan_body binary64 thirds_attrs (boosted_attributes thirds_attrs 1) 1 OMEGA
            (initial_state (Fin (3752999689475413 / 2251799813685248)) thirds_store) (1, 1) = Inr st' \<and>
          row_time_actual (last (rows st')) = Fin (7505999378950827 / 4503599627370496) \<and>
          booster_remaining st' = Fin (- (1 / 4503599627370496))"
    by (simp add: plan_body_unfold initial_state_def finish_item_def
        booster_step_def calculate_training_time_def fsub_def to_float_def printable_def
        binary64_thirds Let_def one thirds_rates del: One_nat_def)
  have m: "fmul binary64 (Fin (3752999689475413 / 2251799813685248)) (to_float binary64 1350) = fl 2250"
    by (simp add: to_float_def binary64_thirds)
  have f: "flt (Fin 0) (Fin (3752999689475413 / 2251799813685248))"
    by simp
  have n: "Fin (- (1 / 4503599627370496)) \<noteq> Fin 0"
    by simp
  from f thirds_rates(4) thirds_rates(6) m w n show ?thesis
    by (intro conjI)
qed

text \<open>
  Claim C2, amended. When the booster is active and the SP it can still cover, hours
  left times boosted rate as the program computes it, equals the SP the item needs, the
  loop body takes the full-coverage branch and not the split: the actual time is the
  duration of the whole quantity at the boosted rate, and the hours left afterwards are
  the hours left before minus that duration, rounded. They are exactly zero when the
  duration is equal to the hours left before, and always in exact arithmetic. The item
  is finished whenever the boosted rate is positive. With 6000 SP, boosted rate 2000
  and 3 hours left the actual time is 3 hours and no hours are left.
\<close>

theorem exact_boundary:
  assumes "0 < bonus" and "flt (Fin 0) (booster_remaining st)"
    and "calculate_sp_per_hour attrs (store st r) cs = Inr b"
    and "calculate_sp_per_hour battrs (store st r) cs = Inr rb"
    and "fmul rnd (booster_remaining st) (to_float rnd rb) = fl (sp_to_train (store st r) t)"
  shows "booster_step rnd bonus (booster_remaining st) (sp_to_train (store st r) t) b rb =
           \<lparr>out_time_base = calculate_training_time rnd (PyInt (sp_to_train (store st r) t)) b,
            out_time_actual = calculate_training_time rnd (PyInt (sp_to_train (store st r) t)) rb,
            out_time_saved =
              fsub rnd (calculate_training_time rnd (PyInt (sp_to_train (store st r) t)) b)
                   (calculate_training_time rnd (PyInt (sp_to_train (store st r) t)) rb),
            out_booster_remaining =
              fsub rnd (booster_remaining st)
                   (calculate_training_time rnd (PyInt (sp_to_train (store st r) t)) rb)\<rparr> \<and>
         (\<forall>st'. plan_body rnd attrs battrs bonus cs st (r, t) = Inr st' \<longrightarrow>
            row_time_actual (last (rows st')) =
              calculate_training_time rnd (PyInt (sp_to_train (store st r) t)) rb \<and>
            booster_remaining st' =
              fsub rnd (booster_remaining st)
                   (calculate_training_time rnd (PyInt (sp_to_train (store st r) t)) rb) \<and>
            (rnd 0 = 0 \<and>
             calculate_training_time rnd (PyInt (sp_to_train (store st r) t)) rb = booster_remaining st
               \<longrightarrow> booster_remaining st' = Fin 0) \<and>
            (rnd = exact \<longrightarrow> booster_remaining st' = Fin 0)) \<and>
         (0 < rb \<longrightarrow> (\<exists>st'. plan_body rnd attrs battrs bonus cs st (r, t) = Inr st')) \<and>
         out_time_actual (booster_step binary64 1 (Fin 3) 6000 b 2000) = Fin 3 \<and>
         out_booster_remaining (booster_step binary64 1 (Fin 3) 6000 b 2000) = Fin 0"
proof -
  define q where "q = sp_to_train (store st r) t"
  from assms(5) obtain x where R: "booster_remaining st = Fin x"
    and xq: "rnd (x * rnd (real_of_int rb)) = real_of_int q"
    by (cases "booster_remaining st") (auto simp: inf_times_def to_float_def q_def split: if_splits)
  from assms(2) R have xpos: "0 < x" by simp
  have cover: "fle (fl q) (fmul rnd (booster_remaining st) (to_float rnd rb))"
    by (simp add: R xq to_float_def)
  note full = step_full [OF assms(1,2) cover, of b]
  have first: "row_time_actual (last (rows st')) = calculate_training_time rnd (PyInt q) rb \<and>
      booster_remaining st' = fsub rnd (booster_remaining st) (calculate_training_time rnd (PyInt q) rb) \<and>
      (rnd 0 = 0 \<and> calculate_training_time rnd (PyInt q) rb = booster_remaining st
         \<longrightarrow> booster_remaining st' = Fin 0) \<and>
      (rnd = exact \<longrightarrow> booster_remaining st' = Fin 0)"
    if body: "plan_body rnd attrs battrs bonus cs st (r, t) = Inr st'" for st'
  proof -
    from plan_body_Inr_rates [OF body assms(3,4)]
    have st': "st' = finish_item rnd st (r, t) (booster_step rnd bonus (booster_remaining st) q b rb)"
      and p: "printable (out_time_saved (booster_step rnd bonus (booster_remaining st) q b rb))"
      by (simp_all add: q_def)
    from p have rbpos: "0 < rb"
      by (cases "b \<le> 0")
         (auto simp: full calculate_training_time_def fsub_def printable_def split: if_splits)
    have act: "row_time_actual (last (rows st')) = calculate_training_time rnd (PyInt q) rb"
      by (simp add: st' full)
    have rem: "booster_remaining st' =
        fsub rnd (booster_remaining st) (calculate_training_time rnd (PyInt q) rb)"
      by (simp add: st' full)
    have same: "booster_remaining st' = Fin 0"
      if "rnd 0 = 0 \<and> calculate_training_time rnd (PyInt q) rb = booster_remaining st"
      using that by (simp add: rem R fsub_def)
    have ex: "booster_remaining st' = Fin 0" if e: "rnd = exact"
    proof -
      from xq have "x * real_of_int rb = real_of_int q"
        by (simp add: e exact_def)
      with rbpos have "x = real_of_int q / real_of_int rb"
        by (simp add: field_simps)
      then show ?thesis
        using rbpos by (simp add: rem R e exact_def calculate_training_time_def fsub_def)
    qed
    from act rem same ex show ?thesis by blast
  qed
  have second: "\<exists>st'. plan_body rnd attrs battrs bonus cs st (r, t) = Inr st'" if "0 < rb"
  proof -
    have "plan_body rnd attrs battrs bonus cs st (r, t) = Inr (finish_item rnd st (r, t)
      (booster_step rnd bonus (booster_remaining st) (sp_to_train (store st (fst (r, t))) (snd (r, t))) b rb))"
      using assms(3,4) that
      by (intro plan_body_succeeds)
         (simp_all add: full [unfolded q_def] calculate_training_time_def fsub_def printable_def)
    then show ?thesis by blast
  qed
  have third: "out_time_actual (booster_step binary64 1 (Fin 3) 6000 b 2000) = Fin 3 \<and>
         out_booster_remaining (booster_step binary64 1 (Fin 3) 6000 b 2000) = Fin 0"
    by (simp add: booster_step_def calculate_training_time_def fsub_def to_float_def Let_def)
  from full first second third show ?thesis
    unfolding q_def by blast
qed

theorem exact_boundary_witness:
  "(0::int) < 5 \<and>
   flt (Fin 0) (booster_remaining (initial_state (Fin (5/2)) (\<lambda>_. demo_skill))) \<and>
   calculate_sp_per_hour demo_attrs demo_skill OMEGA = Inr 450 \<and>
   calculate_sp_per_hour (boosted_attributes demo_attrs 5) demo_skill OMEGA = Inr 900 \<and>
   fmul binary64 (Fin (5/2)) (to_float binary64 900) = fl (sp_to_train demo_skill 1) \<and>
   fmul exact (Fin (5/2)) (to_float exact 900) = fl (sp_to_train demo_skill 1) \<and>
   binary64 0 = 0 \<and>
   calculate_training_time binary64 (PyInt (sp_to_train demo_skill 1)) 900 = Fin (5/2) \<and>
   (\<exists>st'. plan_body binary64 demo_attrs (boosted_attributes demo_attrs 5) 5 OMEGA
            (initial_state (Fin (5/2)) (\<lambda>_. demo_skill)) (0, 1) = Inr st' \<and>
          row_time_actual (last (rows st')) = Fin (5/2) \<and>
          booster_remaining st' = Fin 0) \<and>
   (\<exists>st'. plan_body exact demo_attrs (boosted_attributes demo_attrs 5) 5 OMEGA
            (initial_state (Fin (5/2)) (\<lambda>_. demo_skill)) (0, 1) = Inr st' \<and>
          booster_remaining st' = Fin 0)"
proof -
  define st where "st = initial_state (Fin (5/2)) (\<lambda>_. demo_skill)"
  have st_R: "booster_remaining st = Fin (5/2)" and st_s: "store st 0 = demo_skill"
    by (simp_all add: st_def initial_state_def)
  have h1: "(0::int) < 5" by simp
  have h2: "flt (Fin 0) (booster_remaining st)" by (simp add: st_R)
  have r1: "calculate_sp_per_hour demo_attrs (store st 0) OMEGA = Inr 450"
    by (simp add: st_s eval_defs)
  have r2: "calculate_sp_per_hour (boosted_attributes demo_attrs 5) (store st 0) OMEGA = Inr 900"
    by (simp add: st_s eval_defs)
  have q: "sp_to_train demo_skill 1 = 2250"
    by (simp add: eval_defs)
  have h5: "fmul binary64 (booster_remaining st) (to_float binary64 900) = fl (sp_to_train (store st 0) 1)"
    by (simp add: st_R st_s q to_float_def)
  have h5e: "fmul exact (booster_remaining st) (to_float exact 900) = fl (sp_to_train (store st 0) 1)"
    by (simp add: st_R st_s q to_float_def exact_def)
  have z: "binary64 0 = 0" by simp
  have d: "calculate_training_time binary64 (PyInt (sp_to_train (store st 0) 1)) 900 = booster_remaining st"
    by (simp add: st_R st_s q calculate_training_time_def)
  note eb = exact_boundary [OF h1 h2 r1 r2 h5]
  note ebe = exact_boundary [OF h1 h2 r1 r2 h5e]
  from eb have "\<exists>st'. plan_body binary64 demo_attrs (boosted_attributes demo_attrs 5) 5 OMEGA st (0, 1) = Inr st'"
    by simp
  then obtain st' where
    body: "plan_body binary64 demo_attrs (boosted_attributes demo_attrs 5) 5 OMEGA st (0, 1) = Inr st'" ..
  from eb body have
    a: "row_time_actual (last (rows st')) =
          calculate_training_time binary64 (PyInt (sp_to_train (store st 0) 1)) 900"
    by blast
  from eb body z d have z': "booster_remaining st' = Fin 0"
    by blast
  from a d have a': "row_time_actual (last (rows st')) = Fin (5/2)"
    by (simp add: st_R)
  from body a' z' have w1:
    "\<exists>st'. plan_body binary64 demo_attrs (boosted_attributes demo_attrs 5) 5 OMEGA st (0, 1) = Inr st' \<and>
          row_time_actual (last (rows st')) = Fin (5/2) \<and> booster_remaining st' = Fin 0"
    by blast
  from ebe have "\<exists>st'. plan_body exact demo_attrs (boosted_attributes demo_attrs 5) 5 OMEGA st (0, 1) = Inr st'"
    by simp
  then obtain ste where
    bodye: "plan_body exact demo_attrs (boosted_attributes demo_attrs 5) 5 OMEGA st (0, 1) = Inr ste" ..
  from ebe bodye have "booster_remaining ste = Fin 0"
    by blast
  with bodye have w2:
    "\<exists>st'. plan_body exact demo_attrs (boosted_attributes demo_attrs 5) 5 OMEGA st (0, 1) = Inr st' \<and>
          booster_remaining st' = Fin 0"
    by blast
  have "fmul binary64 (Fin (5/2)) (to_float binary64 900) = fl (sp_to_train demo_skill 1)"
    and "fmul exact (Fin (5/2)) (to_float exact 900) = fl (sp_to_train demo_skill 1)"
    and "calculate_training_time binary64 (PyInt (sp_to_train demo_skill 1)) 900 = Fin (5/2)"
    by (simp_all add: q to_float_def exact_def calculate_training_time_def)
  with w1 w2 z h1 h2 r1 r2 show ?thesis
    unfolding st_s unfolding st_def by (intro conjI)
qed

section \<open>Infinite durations under an active booster (C5)\<close>

text \<open>
  Claim C5, at an input where it fails. All attributes are \<open>-1\<close> and the booster has
  strength 1 and one hour left, so the base rate is \<open>-90\<close> and the boosted rate 0; the
  skill needs 2250 SP. Base and actual time are both infinite, the time saved is the
  difference of two infinities, NaN, and printing the line raises ValueError: the run
  produces no line at all. Without a booster the same item gets the time saved 0.
\<close>

theorem both_rates_nonpositive_nan:
  "calculate_sp_per_hour negative_attrs demo_skill OMEGA = Inr (- 90) \<and>
   calculate_sp_per_hour (boosted_attributes negative_attrs 1) demo_skill OMEGA = Inr 0 \<and>
   sp_to_train demo_skill 1 = 2250 \<and>
   booster_step binary64 1 (Fin 1) 2250 (- 90) 0 =
     \<lparr>out_time_base = PInf, out_time_actual = PInf, out_time_saved = NaN,
      out_booster_remaining = Fin 0\<rparr> \<and>
   plan_run binary64 negative_attrs (\<lambda>_. demo_skill) [(0, 1)] 1 (Fin 1) OMEGA = [] \<and>
   validate_plan binary64 negative_attrs (\<lambda>_. demo_skill) [(0, 1)] 1 (Fin 1) OMEGA = Inl ValueError \<and>
   out_time_saved (booster_step binary64 0 (Fin 1) 2250 (- 90) 0) = Fin 0"
  by (simp add: eval_defs demo_defs validate_plan_def plan_heading_def)

section \<open>Items that need no SP (C6)\<close>

text \<open>
  Claim C6, amended. For every plan item whose quantity is 0 and whose base and boosted
  rates are positive, the scheduler finishes the item, the line has zero base time, zero
  actual time and zero time saved, and the booster hours left are unchanged. The zero
  base time is the quotient of 0 by the rate: there is no shortcut for a zero quantity.
  The quantity is 0 whenever the target level is not above the current level. The
  booster hours left are a float.
\<close>

theorem zero_quantity_item:
  assumes "sp_to_train (store st r) t = 0"
    and "calculate_sp_per_hour attrs (store st r) cs = Inr b"
    and "calculate_sp_per_hour battrs (store st r) cs = Inr rb"
    and "0 < b" and "0 < rb"
    and "rounding rnd" and "representable rnd (booster_remaining st)"
  shows "(\<exists>st'. plan_body rnd attrs battrs bonus cs st (r, t) = Inr st' \<and>
            row_sp_needed (last (rows st')) = 0 \<and>
            row_time_base (last (rows st')) = Fin 0 \<and>
            row_time_actual (last (rows st')) = Fin 0 \<and>
            row_time_saved (last (rows st')) = Fin 0 \<and>
            booster_remaining st' = booster_remaining st \<and>
            row_time_base (last (rows st')) = truediv rnd (PyInt 0) b) \<and>
         (\<forall>skill level. level \<le> current_level skill \<longrightarrow> sp_to_train skill level = 0)"
proof -
  define out where "out = booster_step rnd bonus (booster_remaining st) 0 b rb"
  note r = assms(6)
  have z: "rnd 0 = 0" by (rule rounding_zero [OF r])
  from rounding_rate [OF r assms(5)] have rrb: "0 < rnd (real_of_int rb)" by simp
  have out: "out_time_base out = Fin 0 \<and> out_time_actual out = Fin 0 \<and>
      out_time_saved out = Fin 0 \<and> out_booster_remaining out = booster_remaining st"
  proof (cases "booster_remaining st")
    case (Fin x)
    have "0 \<le> rnd (x * rnd (real_of_int rb))" if "0 < x"
      using that rrb by (intro rounding_nonneg [OF r]) simp
    moreover have "rnd x = x"
      using assms(7) by (simp add: Fin representable_def)
    ultimately show ?thesis
      using assms(4,5) unfolding out_def
      by (simp add: Fin booster_step_def calculate_training_time_def fsub_def Let_def to_float_def z)
  next
    case PInf
    then show ?thesis
      using assms(4,5) rrb unfolding out_def
      by (simp add: booster_step_def calculate_training_time_def fsub_def Let_def to_float_def z
          inf_times_def)
  next
    case NInf
    then show ?thesis
      using assms(4,5) unfolding out_def
      by (simp add: booster_step_def calculate_training_time_def Let_def z)
  next
    case NaN
    then show ?thesis
      using assms(4,5) unfolding out_def
      by (simp add: booster_step_def calculate_training_time_def Let_def z)
  qed
  have "plan_body rnd attrs battrs bonus cs st (r, t) = Inr (finish_item rnd st (r, t)
      (booster_step rnd bonus (booster_remaining st) (sp_to_train (store st (fst (r, t))) (snd (r, t))) b rb))"
    using assms(2,3) out
    by (intro plan_body_succeeds) (simp_all add: assms(1) out_def [symmetric] printable_def)
  then have "plan_body rnd attrs battrs bonus cs st (r, t) = Inr (finish_item rnd st (r, t) out)"
    by (simp add: assms(1) out_def)
  moreover have "row_sp_needed (last (rows (finish_item rnd st (r, t) out))) = 0"
    by (simp add: assms(1))
  moreover have "truediv rnd (PyInt 0) b = Fin 0"
    by (simp add: z)
  ultimately have "\<exists>st'. plan_body rnd attrs battrs bonus cs st (r, t) = Inr st' \<and>
            row_sp_needed (last (rows st')) = 0 \<and>
            row_time_base (last (rows st')) = Fin 0 \<and>
            row_time_actual (last (rows st')) = Fin 0 \<and>
            row_time_saved (last (rows st')) = Fin 0 \<and>
            booster_remaining st' = booster_remaining st \<and>
            row_time_base (last (rows st')) = truediv rnd (PyInt 0) b"
    using out by (intro exI [of _ "finish_item rnd st (r, t) out"]) simp
  then show ?thesis
    by (simp add: sp_to_train_trained)
qed

theorem zero_quantity_item_witness:
  "sp_to_train trained_skill 1 = 0 \<and>
   calculate_sp_per_hour demo_attrs trained_skill OMEGA = Inr 450 \<and>
   calculate_sp_per_hour (boosted_attributes demo_attrs 5) trained_skill OMEGA = Inr 900 \<and>
   (0::int) < 450 \<and> (0::int) < 900 \<and> rounding binary64 \<and> representable binary64 (Fin 2) \<and>
   (\<exists>st'. plan_body binary64 demo_attrs (boosted_attributes demo_attrs 5) 5 OMEGA
            (initial_state (Fin 2) (\<lambda>_. trained_skill)) (0, 1) = Inr st' \<and>
          row_time_base (last (rows st')) = Fin 0 \<and>
          row_time_actual (last (rows st')) = Fin 0 \<and>
          row_time_saved (last (rows st')) = Fin 0 \<and>
          booster_remaining st' = Fin 2)"
proof -
  define st where "st = initial_state (Fin 2) (\<lambda>_. trained_skill)"
  have st_R: "booster_remaining st = Fin 2" and st_s: "store st 0 = trained_skill"
    by (simp_all add: st_def initial_state_def)
  have q: "sp_to_train (store st 0) 1 = 0"
    by (simp add: st_s sp_to_train_def trained_skill_def)
  have r1: "calculate_sp_per_hour demo_attrs (store st 0) OMEGA = Inr 450"
    by (simp add: st_s eval_defs demo_defs)
  have r2: "calculate_sp_per_hour (boosted_attributes demo_attrs 5) (store st 0) OMEGA = Inr 900"
    by (simp add: st_s eval_defs demo_defs)
  have p1: "(0::int) < 450" and p2: "(0::int) < 900" by simp_all
  have p3: "rounding binary64" by (rule rounding_binary64)
  have p4: "representable binary64 (booster_remaining st)"
    by (simp add: st_R representable_def)
  from zero_quantity_item [OF q r1 r2 p1 p2 p3 p4, of 5]
  have "\<exists>st'. plan_body binary64 demo_attrs (boosted_attributes demo_attrs 5) 5 OMEGA st (0, 1) = Inr st' \<and>
          row_time_base (last (rows st')) = Fin 0 \<and>
          row_time_actual (last (rows st')) = Fin 0 \<and>
          row_time_saved (last (rows st')) = Fin 0 \<and>
          booster_remaining st' = Fin 2"
    unfolding st_R by blast
  with q r1 r2 p1 p2 p3 p4 show ?thesis
    unfolding st_R st_s unfolding st_def by (intro conjI)
qed

text \<open>
  Claim C6 as stated fails when the base rate is not positive: with all attributes zero
  and a skill already above the target level the quantity is 0 and the base time of the
  line is infinite.
\<close>

theorem zero_quantity_counterexample:
  "map row_sp_needed
     (rows (last (plan_run binary64 zero_attrs (\<lambda>_. trained_skill) [(0, 1)] 0 (Fin 0) OMEGA))) = [0] \<and>
   map row_time_base
     (rows (last (plan_run binary64 zero_attrs (\<lambda>_. trained_skill) [(0, 1)] 0 (Fin 0) OMEGA))) = [PInf]"
  by (simp add: eval_defs demo_defs)

section \<open>Progress of a finished item (C9)\<close>

text \<open>
  Claim C9. After the scheduler has finished an item, the skill object it refers to has
  the item's target level as its current level and no partial SP, whatever its level
  was before: a target below the current level lowers the recorded level. No other
  skill object changes.
\<close>

theorem item_progress_overwritten:
  assumes "plan_body rnd attrs battrs bonus cs st (r, t) = Inr st'"
  shows "store st' = (store st)(r := (store st r)\<lparr>current_level := t, current_sp := 0\<rparr>) \<and>
         current_level (store st' r) = t \<and> current_sp (store st' r) = 0"
proof -
  from assms obtain b rb where
    "st' = finish_item rnd st (r, t) (booster_step rnd bonus (booster_remaining st)
        (sp_to_train (store st (fst (r, t))) (snd (r, t))) b rb)"
    by (rule plan_body_Inr)
  then show ?thesis
    by (simp add: finish_item_def)
qed

theorem item_progress_overwritten_witness:
  "current_level trained_skill = 3 \<and>
   (\<exists>st'. plan_body binary64 demo_attrs (boosted_attributes demo_attrs 0) 0 OMEGA
            (initial_state (Fin 0) (\<lambda>_. trained_skill)) (0, 1) = Inr st' \<and>
          current_level (store st' 0) = 1 \<and> current_sp (store st' 0) = 0)"
proof -
  have "\<exists>st'. plan_body binary64 demo_attrs (boosted_attributes demo_attrs 0) 0 OMEGA
            (initial_state (Fin 0) (\<lambda>_. trained_skill)) (0, 1) = Inr st'"
    by (simp add: eval_defs demo_defs)
  then obtain st' where body: "plan_body binary64 demo_attrs (boosted_attributes demo_attrs 0) 0 OMEGA
            (initial_state (Fin 0) (\<lambda>_. trained_skill)) (0, 1) = Inr st'" ..
  from item_progress_overwritten [OF body]
  have "current_level (store st' 0) = 1 \<and> current_sp (store st' 0) = 0"
    by (rule conjunct2)
  with body have "\<exists>st'. plan_body binary64 demo_attrs (boosted_attributes demo_attrs 0) 0 OMEGA
            (initial_state (Fin 0) (\<lambda>_. trained_skill)) (0, 1) = Inr st' \<and>
          current_level (store st' 0) = 1 \<and> current_sp (store st' 0) = 0"
    by blast
  moreover have "current_level trained_skill = 3"
    by (simp add: trained_skill_def)
  ultimately show ?thesis by (intro conjI)
qed

section \<open>Aggregate totals (C7)\<close>

lemma export_format_time_special:
  "export_format_time rnd PInf = Inr ''inf''"
  "export_format_time rnd NInf = Inr ''-inf''"
  "export_format_time rnd NaN = Inl ValueError"
  by (simp_all add: export_format_time.simps [of rnd PInf] export_format_time.simps [of rnd NInf]
        export_format_time.simps [of rnd NaN] fabs_def)

lemma export_format_time_Fin:
  "export_format_time rnd (Fin h) =
     (if h < 0 then Inr (CHR ''-'' # export_format_parts (py_int (rnd (\<bar>h\<bar> * rnd 3600))))
      else Inr (export_format_parts (py_int (rnd (h * rnd 3600)))))"
proof (cases "h < 0")
  case True
  then have "export_format_time rnd (Fin \<bar>h\<bar>) =
      Inr (export_format_parts (py_int (rnd (\<bar>h\<bar> * rnd 3600))))"
    by (subst export_format_time.simps) (simp add: to_float_def)
  with True show ?thesis
    by (subst export_format_time.simps) (simp add: fabs_def)
next
  case False
  then show ?thesis
    by (subst export_format_time.simps) (simp add: to_float_def)
qed

lemma bind_export_format_time:
  "bind_err (export_format_time rnd x) (\<lambda>_. k) = (if x = NaN then Inl ValueError else k)"
  by (cases x) (simp_all add: export_format_time_special export_format_time_Fin)

lemma bind_err_if:
  "bind_err (if c then m else n) f = (if c then bind_err m f else bind_err n f)"
  by simp

lemma main_body_unfold:
  "main_body rnd t entry =
     (if entry_training_time_hours entry = NaN then Inl ValueError
      else Inr \<lparr>total_time = fadd rnd (total_time t) (entry_training_time_hours entry),
                total_old_time = fadd rnd (total_old_time t) (entry_old_training_time_hours entry),
                total_time_saved =
                  (if flt (Fin 0) (entry_time_saved_hours entry)
                   then fadd rnd (total_time_saved t) (entry_time_saved_hours entry)
                   else total_time_saved t)\<rparr>)"
proof -
  have a: "entry_time_saved_hours entry \<noteq> NaN" if "flt (Fin 0) (entry_time_saved_hours entry)"
    using that by (cases "entry_time_saved_hours entry") simp_all
  have b: "entry_old_training_time_hours entry \<noteq> NaN"
    if "flt (Fin 0) (entry_old_training_time_hours entry)"
    using that by (cases "entry_old_training_time_hours entry") simp_all
  show ?thesis
    using a b by (simp add: main_body_def Let_def bind_err_if bind_export_format_time)
qed

lemma main_loop_totals:
  assumes "main_loop rnd t entries = Inr t'"
  shows "total_time t' = foldl (fadd rnd) (total_time t) (map entry_training_time_hours entries) \<and>
         total_old_time t' = foldl (fadd rnd) (total_old_time t) (map entry_old_training_time_hours entries) \<and>
         total_time_saved t' = foldl (fadd rnd) (total_time_saved t)
           (map entry_time_saved_hours (filter (\<lambda>e. flt (Fin 0) (entry_time_saved_hours e)) entries))"
  using assms
proof (induction entries arbitrary: t)
  case Nil
  then show ?case by simp
next
  case (Cons e entries)
  from Cons.prems obtain t1 where b: "main_body rnd t e = Inr t1" and l: "main_loop rnd t1 entries = Inr t'"
    by (auto simp: bind_err_Inr_iff)
  from b have t1: "total_time t1 = fadd rnd (total_time t) (entry_training_time_hours e)"
      "total_old_time t1 = fadd rnd (total_old_time t) (entry_old_training_time_hours e)"
      "total_time_saved t1 = (if flt (Fin 0) (entry_time_saved_hours e)
          then fadd rnd (total_time_saved t) (entry_time_saved_hours e) else total_time_saved t)"
    by (auto simp: main_body_unfold split: if_splits)
  from Cons.IH [OF l] show ?case
    by (simp add: t1)
qed

lemma fsum_snoc: "fsum rnd (xs @ [x]) = fadd rnd (fsum rnd xs) x"
  by (simp add: fsum_def)

lemma plan_body_totals:
  assumes "plan_body rnd attrs battrs bonus cs st item = Inr st'"
    and "total_time_base st = fsum rnd (map row_time_base (rows st)) \<and>
         total_time_boosted st = fsum rnd (map row_time_actual (rows st))"
  shows "total_time_base st' = fsum rnd (map row_time_base (rows st')) \<and>
         total_time_boosted st' = fsum rnd (map row_time_actual (rows st'))"
proof -
  from assms(1) obtain b rb where
    "st' = finish_item rnd st item (booster_step rnd bonus (booster_remaining st)
        (sp_to_train (store st (fst item)) (snd item)) b rb)"
    by (rule plan_body_Inr)
  with assms(2) show ?thesis
    by (simp add: finish_item_def fsum_snoc)
qed

lemma plan_loop_totals:
  assumes "plan_loop rnd attrs battrs bonus cs (initial_state booster_hours skills0) skills = Inr st"
  shows "total_time_base st = fsum rnd (map row_time_base (rows st)) \<and>
         total_time_boosted st = fsum rnd (map row_time_actual (rows st))"
proof -
  have init: "(\<lambda>s::plan_state. total_time_base s = fsum rnd (map row_time_base (rows s)) \<and>
         total_time_boosted s = fsum rnd (map row_time_actual (rows s))) (initial_state booster_hours skills0)"
    by (simp add: initial_state_def fsum_def)
  have "(\<lambda>s::plan_state. total_time_base s = fsum rnd (map row_time_base (rows s)) \<and>
         total_time_boosted s = fsum rnd (map row_time_actual (rows s))) st"
    using assms init by (rule plan_loop_invariant) (rule plan_body_totals)
  then show ?thesis by simp
qed

text \<open>
  Claim C7, amended. \<open>validate_plan\<close> reports as total time saved the sum of the base
  times of all lines minus the sum of their actual times, and reports no percentage.
  The export validator reports as total time saved the sum of the per-line savings that
  are positive, and it reports that total and the percentage, total saved over total
  baseline times 100, only when the total baseline is positive; otherwise both are omitted.
\<close>

theorem aggregate_totals:
  "(\<forall>rep. validate_plan rnd attrs skills0 skills bonus booster_hours cs = Inr rep \<longrightarrow>
      total_saved rep = fsub rnd (fsum rnd (map row_time_base (rows (final rep))))
                             (fsum rnd (map row_time_actual (rows (final rep))))) \<and>
   (\<forall>s. main_summary rnd entries = Inr s \<longrightarrow>
      (if flt (Fin 0) (fsum rnd (map entry_old_training_time_hours entries))
       then summary_time_saved s =
              Some (fsum rnd (map entry_time_saved_hours
                      (filter (\<lambda>e. flt (Fin 0) (entry_time_saved_hours e)) entries))) \<and>
            summary_percent_saved s =
              Some (fmul rnd (fdiv rnd (fsum rnd (map entry_time_saved_hours
                                  (filter (\<lambda>e. flt (Fin 0) (entry_time_saved_hours e)) entries)))
                               (fsum rnd (map entry_old_training_time_hours entries)))
                         (to_float rnd 100))
       else summary_time_saved s = None \<and> summary_percent_saved s = None))"
proof (intro conjI allI impI)
  fix rep assume "validate_plan rnd attrs skills0 skills bonus booster_hours cs = Inr rep"
  then obtain st where
    l: "plan_loop rnd attrs (boosted_attributes attrs bonus) bonus cs
          (initial_state booster_hours skills0) skills = Inr st"
    and rep: "rep = \<lparr>final = st, total_saved = fsub rnd (total_time_base st) (total_time_boosted st)\<rparr>"
    by (auto simp: validate_plan_def bind_err_Inr_iff bind_format_time split: if_splits)
  from plan_loop_totals [OF l] rep
  show "total_saved rep = fsub rnd (fsum rnd (map row_time_base (rows (final rep))))
                             (fsum rnd (map row_time_actual (rows (final rep))))"
    by simp
next
  fix s assume "main_summary rnd entries = Inr s"
  then obtain t where
    l: "main_loop rnd \<lparr>total_time = Fin 0, total_old_time = Fin 0, total_time_saved = Fin 0\<rparr> entries = Inr t"
    and s: "s = (if flt (Fin 0) (total_old_time t)
       then \<lparr>summary_time = total_time t, summary_baseline = Some (total_old_time t),
             summary_time_saved = Some (total_time_saved t),
             summary_percent_saved =
               Some (fmul rnd (fdiv rnd (total_time_saved t) (total_old_time t)) (to_float rnd 100))\<rparr>
       else \<lparr>summary_time = total_time t, summary_baseline = None,
             summary_time_saved = None, summary_percent_saved = None\<rparr>)"
    by (auto simp: main_summary_def bind_err_Inr_iff bind_export_format_time Let_def
          split: if_splits)
  from main_loop_totals [OF l] s
  show "if flt (Fin 0) (fsum rnd (map entry_old_training_time_hours entries))
       then summary_time_saved s =
              Some (fsum rnd (map entry_time_saved_hours
                      (filter (\<lambda>e. flt (Fin 0) (entry_time_saved_hours e)) entries))) \<and>
            summary_percent_saved s =
              Some (fmul rnd (fdiv rnd (fsum rnd (map entry_time_saved_hours
                                  (filter (\<lambda>e. flt (Fin 0) (entry_time_saved_hours e)) entries)))
                               (fsum rnd (map entry_old_training_time_hours entries)))
                         (to_float rnd 100))
       else summary_time_saved s = None \<and> summary_percent_saved s = None"
    by (simp add: fsum_def)
qed

theorem aggregate_totals_witness:
  "(\<exists>rep. validate_plan binary64 demo_attrs (\<lambda>_. demo_skill) [(0, 1), (1, 1)] 5 (Fin 3) OMEGA = Inr rep \<and>
      total_saved rep = Fin 3 \<and>
      total_saved rep = fsub binary64 (fsum binary64 (map row_time_base (rows (final rep))))
                             (fsum binary64 (map row_time_actual (rows (final rep))))) \<and>
   (\<exists>s. main_summary binary64 demo_entries = Inr s \<and>
      flt (Fin 0) (fsum binary64 (map entry_old_training_time_hours demo_entries)) \<and>
      summary_time_saved s = Some (Fin 2) \<and>
      summary_time_saved s =
         Some (fsum binary64 (map entry_time_saved_hours
                 (filter (\<lambda>e. flt (Fin 0) (entry_time_saved_hours e)) demo_entries))))"
proof -
  have "\<exists>rep. validate_plan binary64 demo_attrs (\<lambda>_. demo_skill) [(0, 1), (1, 1)] 5 (Fin 3) OMEGA = Inr rep \<and>
      total_saved rep = Fin 3"
    by (simp add: validate_plan_def plan_heading_def eval_defs)
  then obtain rep where
    v: "validate_plan binary64 demo_attrs (\<lambda>_. demo_skill) [(0, 1), (1, 1)] 5 (Fin 3) OMEGA = Inr rep"
    and t: "total_saved rep = Fin 3" by blast
  have "\<exists>s. main_summary binary64 demo_entries = Inr s \<and> summary_time_saved s = Some (Fin 2)"
    by (simp add: main_summary_def main_body_unfold demo_entries_def demo_entry_def
        bind_export_format_time)
  then obtain s where m: "main_summary binary64 demo_entries = Inr s"
    and ts: "summary_time_saved s = Some (Fin 2)" by blast
  have old: "flt (Fin 0) (fsum binary64 (map entry_old_training_time_hours demo_entries))"
    by (simp add: demo_entries_def demo_entry_def fsum_def)
  note agg = aggregate_totals [of binary64 demo_attrs "\<lambda>_. demo_skill" "[(0, 1), (1, 1)]" 5 "Fin 3" OMEGA
      demo_entries]
  from agg v have a: "total_saved rep = fsub binary64 (fsum binary64 (map row_time_base (rows (final rep))))
                             (fsum binary64 (map row_time_actual (rows (final rep))))"
    by blast
  from agg m old have b: "summary_time_saved s =
         Some (fsum binary64 (map entry_time_saved_hours
                 (filter (\<lambda>e. flt (Fin 0) (entry_time_saved_hours e)) demo_entries)))"
    by simp
  from v t a m old ts b show ?thesis by blast
qed

text \<open>
  Claim C7 as stated fails in the export validator: for the two example lines it reports
  2 hours saved, the positive saving alone, while the baseline total minus the total
  training time is 1 hour.
\<close>

theorem aggregate_totals_counterexample:
  "main_summary binary64 demo_entries =
     Inr \<lparr>summary_time = Fin 3, summary_baseline = Some (Fin 4),
          summary_time_saved = Some (Fin 2), summary_percent_saved = Some (Fin 50)\<rparr> \<and>
   fsub binary64 (fsum binary64 (map entry_old_training_time_hours demo_entries))
        (fsum binary64 (map entry_training_time_hours demo_entries)) = Fin 1"
  by (simp add: main_summary_def main_body_unfold demo_entries_def demo_entry_def
        bind_export_format_time fsum_def fsub_def to_float_def)

section \<open>Single-skill validation against the scheduler (C8)\<close>

lemma single_matches_step:
  assumes "0 < bonus" "flt (Fin 0) hours"
    and "single_boosted_time rnd hours q b rb = Inr shown"
    and "printable (out_time_saved (booster_step rnd bonus hours q b rb))"
  shows "shown = out_time_actual (booster_step rnd bonus hours q b rb)"
  using assms
  by (cases hours)
     (auto simp: single_boosted_time_def booster_step_def Let_def py_truediv_def to_float_def
        calculate_training_time_def fsub_def printable_def bind_format_time inf_times_def
        bind_err_Inr_iff split: if_splits)

lemma bind_format_time_Inr:
  "bind_err (format_time rnd x) (\<lambda>_. k) = Inr y \<longleftrightarrow> printable x \<and> k = Inr y"
  by (simp add: bind_format_time)

lemma validate_single_skill_Inr:
  assumes "validate_single_skill rnd attrs sk t bonus hours cs = Inr rep"
  shows "\<exists>b. calculate_sp_per_hour attrs sk cs = Inr b \<and>
    single_sp_needed rep = sp_to_train sk t \<and>
    single_time_base rep = calculate_training_time rnd (PyInt (sp_to_train sk t)) b \<and>
    (\<not> 0 < bonus \<longrightarrow> single_time_boosted rep = None \<and> single_time_saved rep = None) \<and>
    (0 < bonus \<longrightarrow> (\<exists>rb shown.
           calculate_sp_per_hour (boosted_attributes attrs bonus) sk cs = Inr rb \<and>
           single_boosted_time rnd hours (sp_to_train sk t) b rb = Inr shown \<and>
           single_time_boosted rep = Some shown \<and>
           single_time_saved rep =
             Some (fsub rnd (calculate_training_time rnd (PyInt (sp_to_train sk t)) b)
                        (calculate_training_time rnd (PyInt (sp_to_train sk t)) rb))))"
proof (cases "0 < bonus")
  case True
  with assms show ?thesis
    by (simp add: validate_single_skill_def Let_def bind_format_time_Inr bind_err_Inr_iff) force
next
  case False
  with assms show ?thesis
    by (simp add: validate_single_skill_def Let_def bind_format_time_Inr bind_err_Inr_iff) force
qed

lemma plan_run_single:
  assumes "plan_run rnd attrs skills0 [item] bonus hours cs = [st]"
  shows "plan_body rnd attrs (boosted_attributes attrs bonus) bonus cs
           (initial_state hours skills0) item = Inr st"
  using assms
  by (auto simp: plan_run_unfold split: if_splits sum.splits)

text \<open>
  Claim C8, amended. \<open>validate_single_skill\<close> is a routine of its own. Whenever it
  and the scheduler on the one-element plan with the same item both finish, they agree
  on the quantity and on the base time. With a positive booster strength and a positive
  booster duration they also agree on the actual time. The time saved of the single-skill
  report is always the base time minus the time of the whole quantity at the boosted
  rate; it is the scheduler's time saved when in addition the booster covers the whole
  item. Without a positive strength the single-skill report has neither value.
\<close>

theorem single_skill_against_plan:
  assumes single: "validate_single_skill rnd attrs sk t bonus hours cs = Inr rep"
    and plan: "plan_run rnd attrs skills0 [(r, t)] bonus hours cs = [st]"
    and sk: "skills0 r = sk"
  shows "single_sp_needed rep = row_sp_needed (last (rows st)) \<and>
         single_time_base rep = row_time_base (last (rows st)) \<and>
         (0 < bonus \<and> flt (Fin 0) hours \<longrightarrow>
            single_time_boosted rep = Some (row_time_actual (last (rows st)))) \<and>
         (0 < bonus \<and> flt (Fin 0) hours \<and>
          (\<forall>rb. calculate_sp_per_hour (boosted_attributes attrs bonus) sk cs = Inr rb \<longrightarrow>
                fle (fl (sp_to_train sk t)) (fmul rnd hours (to_float rnd rb))) \<longrightarrow>
            single_time_saved rep = Some (row_time_saved (last (rows st)))) \<and>
         (0 < bonus \<longrightarrow>
            (\<exists>rb. calculate_sp_per_hour (boosted_attributes attrs bonus) sk cs = Inr rb \<and>
                  single_time_saved rep =
                    Some (fsub rnd (single_time_base rep)
                               (calculate_training_time rnd (PyInt (sp_to_train sk t)) rb)))) \<and>
         (\<not> 0 < bonus \<longrightarrow> single_time_boosted rep = None \<and> single_time_saved rep = None)"
proof -
  define q where "q = sp_to_train sk t"
  define st0 where "st0 = initial_state hours skills0"
  have st0: "store st0 r = sk" "booster_remaining st0 = hours"
    by (simp_all add: st0_def initial_state_def sk)
  from validate_single_skill_Inr [OF single, folded q_def]
  obtain b where b: "calculate_sp_per_hour attrs sk cs = Inr b"
    and s1: "single_sp_needed rep = q"
    and s2: "single_time_base rep = calculate_training_time rnd (PyInt q) b"
    and s3': "\<not> 0 < bonus \<longrightarrow> single_time_boosted rep = None \<and> single_time_saved rep = None"
    and s4': "0 < bonus \<longrightarrow> (\<exists>rb shown.
           calculate_sp_per_hour (boosted_attributes attrs bonus) sk cs = Inr rb \<and>
           single_boosted_time rnd hours q b rb = Inr shown \<and>
           single_time_boosted rep = Some shown \<and>
           single_time_saved rep =
             Some (fsub rnd (calculate_training_time rnd (PyInt q) b)
                        (calculate_training_time rnd (PyInt q) rb)))"
    by (elim exE conjE)
  note s3 = s3' [rule_format] and s4 = s4' [rule_format]
  from plan have body: "plan_body rnd attrs (boosted_attributes attrs bonus) bonus cs st0 (r, t) = Inr st"
    unfolding st0_def by (rule plan_run_single)
  from body obtain b' rb where b': "calculate_sp_per_hour attrs (store st0 (fst (r, t))) cs = Inr b'"
    and rb: "calculate_sp_per_hour (boosted_attributes attrs bonus) (store st0 (fst (r, t))) cs = Inr rb"
    by (rule plan_body_Inr)
  from b b' have "b' = b" by (simp add: st0)
  from rb have rb': "calculate_sp_per_hour (boosted_attributes attrs bonus) sk cs = Inr rb"
    by (simp add: st0)
  from b have b0: "calculate_sp_per_hour attrs (store st0 r) cs = Inr b"
    by (simp add: st0)
  from rb have rb0: "calculate_sp_per_hour (boosted_attributes attrs bonus) (store st0 r) cs = Inr rb"
    by simp
  define out where "out = booster_step rnd bonus hours q b rb"
  from plan_body_Inr_rates [OF body b0 rb0]
  have st: "st = finish_item rnd st0 (r, t) out" and p: "printable (out_time_saved out)"
    by (simp_all add: st0 q_def out_def)
  have row: "row_sp_needed (last (rows st)) = q"
      "row_time_base (last (rows st)) = out_time_base out"
      "row_time_actual (last (rows st)) = out_time_actual out"
      "row_time_saved (last (rows st)) = out_time_saved out"
    by (simp_all add: st st0 q_def)
  have base: "out_time_base out = calculate_training_time rnd (PyInt q) b"
    by (simp add: out_def booster_step_def Let_def)
  have c1: "single_sp_needed rep = row_sp_needed (last (rows st))"
    by (simp add: s1 row)
  have c2: "single_time_base rep = row_time_base (last (rows st))"
    by (simp add: s2 row base)
  have c3: "single_time_boosted rep = Some (row_time_actual (last (rows st)))"
    if "0 < bonus \<and> flt (Fin 0) hours"
  proof -
    from that s4 rb' obtain shown where
      sh: "single_boosted_time rnd hours q b rb = Inr shown" "single_time_boosted rep = Some shown"
      by auto
    from that sh(1) p have "shown = out_time_actual out"
      unfolding out_def by (intro single_matches_step) simp_all
    with sh(2) show ?thesis by (simp add: row)
  qed
  have c5: "\<exists>rb. calculate_sp_per_hour (boosted_attributes attrs bonus) sk cs = Inr rb \<and>
      single_time_saved rep =
        Some (fsub rnd (single_time_base rep) (calculate_training_time rnd (PyInt q) rb))"
    if "0 < bonus"
    using s4 [OF that] s2 by auto
  have c4: "single_time_saved rep = Some (row_time_saved (last (rows st)))"
    if a: "0 < bonus \<and> flt (Fin 0) hours \<and>
          (\<forall>rb. calculate_sp_per_hour (boosted_attributes attrs bonus) sk cs = Inr rb \<longrightarrow>
                fle (fl q) (fmul rnd hours (to_float rnd rb)))"
  proof -
    from a rb' have cover: "fle (fl q) (fmul rnd hours (to_float rnd rb))" by blast
    from a have "0 < bonus" "flt (Fin 0) hours" by simp_all
    from step_full [OF this cover, of b]
    have "out_time_saved out = fsub rnd (calculate_training_time rnd (PyInt q) b)
         (calculate_training_time rnd (PyInt q) rb)"
      by (simp add: out_def)
    moreover from a s4 rb' have "single_time_saved rep =
             Some (fsub rnd (calculate_training_time rnd (PyInt q) b)
                        (calculate_training_time rnd (PyInt q) rb))"
      by auto
    ultimately show ?thesis by (simp add: row)
  qed
  show ?thesis
    unfolding q_def [symmetric]
  proof (intro conjI impI)
    show "single_sp_needed rep = row_sp_needed (last (rows st))" by (rule c1)
    show "single_time_base rep = row_time_base (last (rows st))" by (rule c2)
    show "single_time_boosted rep = Some (row_time_actual (last (rows st)))"
      if "0 < bonus \<and> flt (Fin 0) hours" using that by (rule c3)
    show "single_time_saved rep = Some (row_time_saved (last (rows st)))"
      if "0 < bonus \<and> flt (Fin 0) hours \<and>
          (\<forall>rb. calculate_sp_per_hour (boosted_attributes attrs bonus) sk cs = Inr rb \<longrightarrow>
                fle (fl q) (fmul rnd hours (to_float rnd rb)))" using that by (rule c4)
    show "\<exists>rb. calculate_sp_per_hour (boosted_attributes attrs bonus) sk cs = Inr rb \<and>
      single_time_saved rep =
        Some (fsub rnd (single_time_base rep) (calculate_training_time rnd (PyInt q) rb))"
      if "0 < bonus" using that by (rule c5)
    show "single_time_boosted rep = None" if "\<not> 0 < bonus" using s3 [OF that] by simp
    show "single_time_saved rep = None" if "\<not> 0 < bonus" using s3 [OF that] by simp
  qed
qed

theorem single_skill_against_plan_witness:
  "validate_single_skill binary64 demo_attrs demo_skill 1 5 (Fin 3) OMEGA =
     Inr \<lparr>single_sp_needed = 2250, single_time_base = Fin 5,
          single_time_boosted = Some (Fin (5/2)), single_time_saved = Some (Fin (5/2))\<rparr> \<and>
   (0::int) < 5 \<and> flt (Fin 0) (Fin 3) \<and>
   calculate_sp_per_hour (boosted_attributes demo_attrs 5) demo_skill OMEGA = Inr 900 \<and>
   fle (fl (sp_to_train demo_skill 1)) (fmul binary64 (Fin 3) (to_float binary64 900)) \<and>
   (\<exists>st. plan_run binary64 demo_attrs (\<lambda>_. demo_skill) [(0, 1)] 5 (Fin 3) OMEGA = [st] \<and>
         row_sp_needed (last (rows st)) = 2250 \<and>
         row_time_base (last (rows st)) = Fin 5 \<and>
         row_time_actual (last (rows st)) = Fin (5/2) \<and>
         row_time_saved (last (rows st)) = Fin (5/2))"
proof -
  define rep where "rep = \<lparr>single_sp_needed = 2250, single_time_base = Fin 5,
          single_time_boosted = Some (Fin (5/2)), single_time_saved = Some (Fin (5/2))\<rparr>"
  have single: "validate_single_skill binary64 demo_attrs demo_skill 1 5 (Fin 3) OMEGA = Inr rep"
    by (simp add: rep_def validate_single_skill_def single_boosted_time_def py_truediv_def eval_defs)
  have "\<exists>st. plan_run binary64 demo_attrs (\<lambda>_. demo_skill) [(0, 1)] 5 (Fin 3) OMEGA = [st]"
    by (simp add: eval_defs)
  then obtain st where plan: "plan_run binary64 demo_attrs (\<lambda>_. demo_skill) [(0, 1)] 5 (Fin 3) OMEGA = [st]" ..
  have h1: "(0::int) < 5" and h2: "flt (Fin 0) (Fin 3)" by simp_all
  have h3: "\<forall>rb. calculate_sp_per_hour (boosted_attributes demo_attrs 5) demo_skill OMEGA = Inr rb \<longrightarrow>
         fle (fl (sp_to_train demo_skill 1)) (fmul binary64 (Fin 3) (to_float binary64 rb))"
    by (simp add: eval_defs)
  note ssp = single_skill_against_plan [OF single plan refl]
  from ssp have "row_sp_needed (last (rows st)) = 2250" "row_time_base (last (rows st)) = Fin 5"
    by (simp_all add: rep_def)
  moreover from ssp h1 h2 have "row_time_actual (last (rows st)) = Fin (5/2)"
    by (simp add: rep_def)
  moreover from ssp h1 h2 h3 have "single_time_saved rep = Some (row_time_saved (last (rows st)))"
    by blast
  then have "row_time_saved (last (rows st)) = Fin (5/2)"
    by (simp add: rep_def)
  ultimately have "\<exists>st. plan_run binary64 demo_attrs (\<lambda>_. demo_skill) [(0, 1)] 5 (Fin 3) OMEGA = [st] \<and>
         row_sp_needed (last (rows st)) = 2250 \<and>
         row_time_base (last (rows st)) = Fin 5 \<and>
         row_time_actual (last (rows st)) = Fin (5/2) \<and>
         row_time_saved (last (rows st)) = Fin (5/2)"
    using plan by blast
  moreover have "calculate_sp_per_hour (boosted_attributes demo_attrs 5) demo_skill OMEGA = Inr 900"
    and "fle (fl (sp_to_train demo_skill 1)) (fmul binary64 (Fin 3) (to_float binary64 900))"
    by (simp_all add: eval_defs)
  ultimately show ?thesis
    using single h1 h2 unfolding rep_def by (intro conjI)
qed

text \<open>
  Claim C8 as stated fails. With one booster hour the item is split: both routines give
  4 hours of actual time, but the single-skill report shows 2.5 hours saved and the
  scheduler 1 hour. With the default booster duration 0 the single-skill report trains
  the whole item at the boosted rate, 2.5 hours, and the scheduler at the base rate, 5 hours.
\<close>

theorem single_skill_counterexample:
  "validate_single_skill binary64 demo_attrs demo_skill 1 5 (Fin 1) OMEGA =
     Inr \<lparr>single_sp_needed = 2250, single_time_base = Fin 5,
          single_time_boosted = Some (Fin 4), single_time_saved = Some (Fin (5/2))\<rparr> \<and>
   map row_time_saved
     (rows (last (plan_run binary64 demo_attrs (\<lambda>_. demo_skill) [(0, 1)] 5 (Fin 1) OMEGA))) = [Fin 1] \<and>
   validate_single_skill binary64 demo_attrs demo_skill 1 5 (Fin 0) OMEGA =
     Inr \<lparr>single_sp_needed = 2250, single_time_base = Fin 5,
          single_time_boosted = Some (Fin (5/2)), single_time_saved = Some (Fin (5/2))\<rparr> \<and>
   map row_time_actual
     (rows (last (plan_run binary64 demo_attrs (\<lambda>_. demo_skill) [(0, 1)] 5 (Fin 0) OMEGA))) = [Fin 5]"
  by (simp add: validate_single_skill_def single_boosted_time_def py_truediv_def eval_defs)

end
